theory Spec2Isabelle
  imports Complex_Main
begin

section \<open>Python values used by the report generator\<close>

text \<open>
  The program is \<^verbatim>\<open>lab_report_generator.py\<close>.  Python text is modelled as an Isabelle
  \<^typ>\<open>string\<close> holding the UTF-8 encoding of the text, so that every Python string
  has a representation (the Greek letter of the thyroid units is two bytes).  The
  operations the program applies to text (\<^verbatim>\<open>split\<close> on an ASCII separator,
  \<^verbatim>\<open>strip\<close>, \<^verbatim>\<open>float\<close>, comparison with \<^verbatim>\<open>''\<close>) are defined on that encoding.
\<close>

datatype error = ValueError | IndexError | KeyError | FontError | OSError

subsection \<open>Characters\<close>

definition byte :: "char \<Rightarrow> nat" where
  "byte c = of_char c"

definition is_digit :: "char \<Rightarrow> bool" where
  "is_digit c = (48 \<le> byte c \<and> byte c \<le> 57)"

definition lower_c :: "char \<Rightarrow> char" where
  "lower_c c = (if 65 \<le> byte c \<and> byte c \<le> 90 then char_of (byte c + 32) else c)"

definition upper_c :: "char \<Rightarrow> char" where
  "upper_c c = (if 97 \<le> byte c \<and> byte c \<le> 122 then char_of (byte c - 32) else c)"

text \<open>
  \<^verbatim>\<open>str.upper\<close> and \<^verbatim>\<open>str.lower\<close>; the program applies them to its own ASCII
  titles, font families and font styles only, and on ASCII text they change the
  letters \<^verbatim>\<open>a-z\<close> / \<^verbatim>\<open>A-Z\<close> and nothing else.
\<close>

definition py_upper :: "string \<Rightarrow> string" where
  "py_upper s = map upper_c s"

definition py_lower :: "string \<Rightarrow> string" where
  "py_lower s = map lower_c s"

text \<open>
  The code points for which \<^verbatim>\<open>str.isspace\<close> holds, as UTF-8: U+0009..U+000D,
  U+001C..U+0020, U+0085, U+00A0, U+1680, U+2000..U+200A, U+2028, U+2029, U+202F,
  U+205F, U+3000.  \<open>uspace_len s\<close> is the number of bytes of the white-space code point
  at the head of \<open>s\<close>, and \<open>0\<close> when \<open>s\<close> does not start with one.
\<close>

definition uspace_len :: "string \<Rightarrow> nat" where
  "uspace_len s =
     (let b = map byte s in
      if take 1 b \<in> set (map (\<lambda>x. [x]) ([9..<14] @ [28..<33])) then 1
      else if take 2 b \<in> set [[0xC2, 0x85], [0xC2, 0xA0]] then 2
      else if take 3 b \<in> set ([[0xE1, 0x9A, 0x80], [0xE2, 0x80, 0xA8], [0xE2, 0x80, 0xA9],
                                [0xE2, 0x80, 0xAF], [0xE2, 0x81, 0x9F], [0xE3, 0x80, 0x80]]
                               @ map (\<lambda>x. [0xE2, 0x80, x]) [0x80..<0x8B]) then 3
      else 0)"

text \<open>The same test at the end of the text: the last code point is white space.\<close>

definition uspace_end_len :: "string \<Rightarrow> nat" where
  "uspace_end_len s =
     (let n = length s in
      if 1 \<le> n \<and> uspace_len (drop (n - 1) s) = 1 then 1
      else if 2 \<le> n \<and> uspace_len (drop (n - 2) s) = 2 then 2
      else if 3 \<le> n \<and> uspace_len (drop (n - 3) s) = 3 then 3
      else 0)"

subsection \<open>\<^verbatim>\<open>str.strip()\<close> and \<^verbatim>\<open>str.split(sep)\<close>\<close>

function py_lstrip :: "string \<Rightarrow> string" where
  "py_lstrip s = (if uspace_len s = 0 then s else py_lstrip (drop (uspace_len s) s))"
  by pat_completeness auto
termination
proof (relation "measure length")
  show "wf (measure length)" by simp
next
  fix s :: string
  assume "uspace_len s \<noteq> 0"
  moreover have "s \<noteq> []" using calculation by (auto simp: uspace_len_def)
  ultimately show "(drop (uspace_len s) s, s) \<in> measure length" by simp
qed

function py_rstrip :: "string \<Rightarrow> string" where
  "py_rstrip s =
     (if uspace_end_len s = 0 then s else py_rstrip (take (length s - uspace_end_len s) s))"
  by pat_completeness auto
termination
proof (relation "measure length")
  show "wf (measure length)" by simp
next
  fix s :: string
  assume "uspace_end_len s \<noteq> 0"
  moreover have "s \<noteq> []" using calculation by (auto simp: uspace_end_len_def)
  ultimately show "(take (length s - uspace_end_len s) s, s) \<in> measure length" by simp
qed

declare py_lstrip.simps [simp del] py_rstrip.simps [simp del]

definition py_strip :: "string \<Rightarrow> string" where
  "py_strip s = py_rstrip (py_lstrip s)"

text \<open>\<^verbatim>\<open>s.split(sep)\<close> for a one-character separator: never an empty list.\<close>

fun py_split :: "char \<Rightarrow> string \<Rightarrow> string list" where
  "py_split sep [] = [[]]"
| "py_split sep (c # cs) =
     (if c = sep then [] # py_split sep cs
      else (case py_split sep cs of [] \<Rightarrow> [[c]] | p # ps \<Rightarrow> (c # p) # ps))"

text \<open>\<^verbatim>\<open>xs[i]\<close> for \<open>i \<ge> 0\<close>: out of range raises \<^verbatim>\<open>IndexError\<close>.\<close>

definition index :: "'a list \<Rightarrow> nat \<Rightarrow> error + 'a" where
  "index xs i = (if i < length xs then Inr (xs ! i) else Inl IndexError)"

subsection \<open>Floating-point values\<close>

text \<open>
  A Python \<^verbatim>\<open>float\<close> is an IEEE binary64 value: a finite value (a rational; the two
  zeros are not told apart, no operation of the program does), an infinity or a NaN.
\<close>

datatype pyfloat = Finite rat | PosInf | NegInf | NaN

fun float_lt :: "pyfloat \<Rightarrow> pyfloat \<Rightarrow> bool" where
  "float_lt (Finite a) (Finite b) = (a < b)"
| "float_lt (Finite a) PosInf = True"
| "float_lt NegInf (Finite b) = True"
| "float_lt NegInf PosInf = True"
| "float_lt _ _ = False"

definition float_gt :: "pyfloat \<Rightarrow> pyfloat \<Rightarrow> bool" where
  "float_gt a b = float_lt b a"

text \<open>
  Truth value of a float in a condition: only zero is false.  Python's \<^verbatim>\<open>==\<close> on
  floats: a NaN is equal to nothing.
\<close>

definition truthy :: "pyfloat \<Rightarrow> bool" where
  "truthy x = (x \<noteq> Finite 0)"

definition float_eq :: "pyfloat \<Rightarrow> pyfloat \<Rightarrow> bool" where
  "float_eq a b = (a = b \<and> a \<noteq> NaN)"

fun float_neg :: "pyfloat \<Rightarrow> pyfloat" where
  "float_neg (Finite a) = Finite (- a)"
| "float_neg PosInf = NegInf"
| "float_neg NegInf = PosInf"
| "float_neg NaN = NaN"

text \<open>Rounding of an exact decimal value to binary64, to nearest, ties to even.\<close>

function bitlen :: "int \<Rightarrow> nat" where
  "bitlen n = (if n \<le> 0 then 0 else Suc (bitlen (n div 2)))"
  by pat_completeness auto
termination
  by (relation "measure nat") auto

declare bitlen.simps [simp del]

definition pow2 :: "int \<Rightarrow> rat" where
  "pow2 e = (if 0 \<le> e then 2 ^ nat e else 1 / 2 ^ nat (- e))"

definition ilog2 :: "rat \<Rightarrow> int" where
  "ilog2 q =
     (let k = int (bitlen (fst (quotient_of q))) - int (bitlen (snd (quotient_of q)))
      in if pow2 k \<le> q then k else k - 1)"

definition round_half_even :: "rat \<Rightarrow> int" where
  "round_half_even q =
     (let f = \<lfloor>q\<rfloor>; r = q - of_int f
      in if r < 1 / 2 then f else if 1 / 2 < r then f + 1 else if even f then f else f + 1)"

definition binary64 :: "rat \<Rightarrow> pyfloat" where
  "binary64 q =
     (if q = 0 then Finite 0
      else let a = \<bar>q\<bar>;
               e = max (ilog2 a - 52) (- 1074);
               v = of_int (round_half_even (a / pow2 e)) * pow2 e
           in if pow2 1024 \<le> v then (if q < 0 then NegInf else PosInf)
              else Finite (if q < 0 then - v else v))"

subsection \<open>\<^verbatim>\<open>float(s)\<close>\<close>

text \<open>
  Decimal digits beyond ASCII (Unicode category Nd, Unicode 14): the UTF-8 encoding of
  the digit zero of each run of ten; the other nine digits of a run differ in the last
  byte only.
\<close>

definition nd_zeros :: "nat list list" where
  "nd_zeros = [
    [0xD9, 0xA0], [0xDB, 0xB0], [0xDF, 0x80], [0xE0, 0xA5, 0xA6],
    [0xE0, 0xA7, 0xA6], [0xE0, 0xA9, 0xA6], [0xE0, 0xAB, 0xA6], [0xE0, 0xAD, 0xA6],
    [0xE0, 0xAF, 0xA6], [0xE0, 0xB1, 0xA6], [0xE0, 0xB3, 0xA6], [0xE0, 0xB5, 0xA6],
    [0xE0, 0xB7, 0xA6], [0xE0, 0xB9, 0x90], [0xE0, 0xBB, 0x90], [0xE0, 0xBC, 0xA0],
    [0xE1, 0x81, 0x80], [0xE1, 0x82, 0x90], [0xE1, 0x9F, 0xA0], [0xE1, 0xA0, 0x90],
    [0xE1, 0xA5, 0x86], [0xE1, 0xA7, 0x90], [0xE1, 0xAA, 0x80], [0xE1, 0xAA, 0x90],
    [0xE1, 0xAD, 0x90], [0xE1, 0xAE, 0xB0], [0xE1, 0xB1, 0x80], [0xE1, 0xB1, 0x90],
    [0xEA, 0x98, 0xA0], [0xEA, 0xA3, 0x90], [0xEA, 0xA4, 0x80], [0xEA, 0xA7, 0x90],
    [0xEA, 0xA7, 0xB0], [0xEA, 0xA9, 0x90], [0xEA, 0xAF, 0xB0], [0xEF, 0xBC, 0x90],
    [0xF0, 0x90, 0x92, 0xA0], [0xF0, 0x90, 0xB4, 0xB0], [0xF0, 0x91, 0x81, 0xA6],
    [0xF0, 0x91, 0x83, 0xB0], [0xF0, 0x91, 0x84, 0xB6], [0xF0, 0x91, 0x87, 0x90],
    [0xF0, 0x91, 0x8B, 0xB0], [0xF0, 0x91, 0x91, 0x90], [0xF0, 0x91, 0x93, 0x90],
    [0xF0, 0x91, 0x99, 0x90], [0xF0, 0x91, 0x9B, 0x80], [0xF0, 0x91, 0x9C, 0xB0],
    [0xF0, 0x91, 0xA3, 0xA0], [0xF0, 0x91, 0xA5, 0x90], [0xF0, 0x91, 0xB1, 0x90],
    [0xF0, 0x91, 0xB5, 0x90], [0xF0, 0x91, 0xB6, 0xA0], [0xF0, 0x96, 0xA9, 0xA0],
    [0xF0, 0x96, 0xAB, 0x80], [0xF0, 0x96, 0xAD, 0x90], [0xF0, 0x9D, 0x9F, 0x8E],
    [0xF0, 0x9D, 0x9F, 0x98], [0xF0, 0x9D, 0x9F, 0xA2], [0xF0, 0x9D, 0x9F, 0xAC],
    [0xF0, 0x9D, 0x9F, 0xB6], [0xF0, 0x9E, 0x85, 0x80], [0xF0, 0x9E, 0x8B, 0xB0],
    [0xF0, 0x9E, 0xA5, 0x90], [0xF0, 0x9F, 0xAF, 0xB0]]"

text \<open>\<open>udigit s\<close>: the value and the byte length of a non-ASCII decimal digit at the head of \<open>s\<close>.\<close>

definition udigit :: "string \<Rightarrow> (nat \<times> nat) option" where
  "udigit s =
     (let b = map byte s in
      case find (\<lambda>z. length z \<le> length b \<and> take (length z - 1) b = butlast z
                      \<and> last z \<le> b ! (length z - 1) \<and> b ! (length z - 1) \<le> last z + 9) nd_zeros of
        None \<Rightarrow> None
      | Some z \<Rightarrow> Some (b ! (length z - 1) - last z, length z))"

text \<open>
  \<^verbatim>\<open>float\<close> first rewrites its argument to ASCII: a character below 127 stays, a
  white-space character becomes a blank, a decimal digit becomes its ASCII digit, and
  anything else makes the conversion fail.
\<close>

function to_ascii :: "string \<Rightarrow> string option" where
  "to_ascii [] = Some []"
| "to_ascii (c # cs) =
     (if byte c < 127 then map_option ((#) c) (to_ascii cs)
      else if uspace_len (c # cs) \<noteq> 0
        then map_option ((#) CHR '' '') (to_ascii (drop (uspace_len (c # cs) - 1) cs))
      else (case udigit (c # cs) of
              None \<Rightarrow> None
            | Some (d, n) \<Rightarrow> map_option ((#) (char_of (48 + d))) (to_ascii (drop (n - 1) cs))))"
  by pat_completeness auto
termination
  by (relation "measure length") auto

text \<open>The blanks \<^verbatim>\<open>float\<close> removes at both ends: \<^verbatim>\<open>' \t\n\v\f\r'\<close>.\<close>

definition c_isspace :: "char \<Rightarrow> bool" where
  "c_isspace c = (byte c = 32 \<or> (9 \<le> byte c \<and> byte c \<le> 13))"

definition c_strip :: "string \<Rightarrow> string" where
  "c_strip s = rev (dropWhile c_isspace (rev (dropWhile c_isspace s)))"

text \<open>\<^verbatim>\<open>digitpart ::= digit (["_"] digit)*\<close>\<close>

fun digitpart_ok :: "string \<Rightarrow> bool" where
  "digitpart_ok [] = False"
| "digitpart_ok [c] = is_digit c"
| "digitpart_ok (c # d # cs) =
     (is_digit c \<and> (if d = CHR ''_'' then digitpart_ok cs else digitpart_ok (d # cs)))"

definition digits_val :: "string \<Rightarrow> int" where
  "digits_val s = foldl (\<lambda>a c. 10 * a + int (byte c - 48)) 0 (filter is_digit s)"

text \<open>\<^verbatim>\<open>number ::= [digitpart] "." digitpart | digitpart ["."]\<close>: the digits as one
  integer and the number of digits after the point.\<close>

definition parse_number :: "string \<Rightarrow> (int \<times> nat) option" where
  "parse_number s =
     (let ip = takeWhile (\<lambda>c. c \<noteq> CHR ''.'') s; rest = dropWhile (\<lambda>c. c \<noteq> CHR ''.'') s in
      case rest of
        [] \<Rightarrow> if digitpart_ok ip then Some (digits_val ip, 0) else None
      | _ # fp \<Rightarrow>
          if (ip = [] \<and> digitpart_ok fp) \<or> (digitpart_ok ip \<and> (fp = [] \<or> digitpart_ok fp))
          then Some (digits_val (ip @ fp), length (filter is_digit fp))
          else None)"

text \<open>\<^verbatim>\<open>exponent ::= ("e" | "E") [sign] digitpart\<close>, after the letter.\<close>

definition parse_exponent :: "string \<Rightarrow> int option" where
  "parse_exponent s =
     (case s of
        [] \<Rightarrow> None
      | c # cs \<Rightarrow>
          if c = CHR ''-'' then (if digitpart_ok cs then Some (- digits_val cs) else None)
          else if c = CHR ''+'' then (if digitpart_ok cs then Some (digits_val cs) else None)
          else (if digitpart_ok s then Some (digits_val s) else None))"

definition scale10 :: "int \<Rightarrow> int \<Rightarrow> rat" where
  "scale10 d x = (if 0 \<le> x then of_int d * 10 ^ nat x else of_int d / 10 ^ nat (- x))"

definition not_e :: "char \<Rightarrow> bool" where
  "not_e c = (c \<noteq> CHR ''e'' \<and> c \<noteq> CHR ''E'')"

definition parse_abs :: "string \<Rightarrow> pyfloat option" where
  "parse_abs s =
     (if py_lower s = ''inf'' \<or> py_lower s = ''infinity'' then Some PosInf
      else if py_lower s = ''nan'' then Some NaN
      else (case parse_number (takeWhile not_e s) of
              None \<Rightarrow> None
            | Some (d, k) \<Rightarrow>
                (case dropWhile not_e s of
                   [] \<Rightarrow> Some (binary64 (scale10 d (- int k)))
                 | _ # ex \<Rightarrow>
                     (case parse_exponent ex of
                        None \<Rightarrow> None
                      | Some x \<Rightarrow> Some (binary64 (scale10 d (x - int k)))))))"

definition py_float :: "string \<Rightarrow> error + pyfloat" where
  "py_float s =
     (case to_ascii s of
        None \<Rightarrow> Inl ValueError
      | Some a \<Rightarrow>
          (case c_strip a of
             [] \<Rightarrow> Inl ValueError
           | c # cs \<Rightarrow>
               (case (if c = CHR ''-'' then map_option float_neg (parse_abs cs)
                      else if c = CHR ''+'' then parse_abs cs
                      else parse_abs (c # cs)) of
                  None \<Rightarrow> Inl ValueError
                | Some x \<Rightarrow> Inr x)))"

text \<open>
  The value of a finite float; \<open>f64 q\<close> is the float a decimal literal \<open>q\<close> denotes, and
  \<open>fdiv a b\<close> the float quotient \<^verbatim>\<open>a / b\<close> of two floats (used where the result is finite).
\<close>

definition fval :: "pyfloat \<Rightarrow> rat" where
  "fval x = (case x of Finite q \<Rightarrow> q | _ \<Rightarrow> 0)"

definition f64 :: "rat \<Rightarrow> rat" where
  "f64 q = fval (binary64 q)"

definition fdiv :: "rat \<Rightarrow> rat \<Rightarrow> rat" where
  "fdiv a b = fval (binary64 (a / b))"

text \<open>\<^verbatim>\<open>str(n)\<close> for a non-negative integer.\<close>

function str_nat :: "nat \<Rightarrow> string" where
  "str_nat n = (if n < 10 then [char_of (48 + n)] else str_nat (n div 10) @ [char_of (48 + n mod 10)])"
  by pat_completeness auto
termination
  by (relation "measure id") auto

declare str_nat.simps [simp del]

section \<open>The PDF document object\<close>

text \<open>
  \<^verbatim>\<open>LabReportPDF\<close> extends the \<^verbatim>\<open>FPDF\<close> class of the PDF library.  The document is
  modelled by what the program can read back from it or change in it: the page number,
  the vertical position, the page geometry, the font and colours in effect, and the
  sequence of what has been drawn.  The horizontal position is not modelled: the program
  never reads it.  A length is the rational value of the binary64 number the library
  holds; the position is moved by exact sums, and the comparisons of
  \<^verbatim>\<open>check_page_break\<close> are made on rounded sums, as the program makes them.  Drawing
  calls do not raise in this model: how the library encodes a text for the output is
  outside it.
\<close>

record font =
  family :: string
  style :: string
  size_pt :: nat

datatype drawing =
    Cell nat rat rat string nat nat string bool font
  | Line nat rat rat rat rat

text \<open>
  \<open>Cell page w h txt border ln align fill font\<close> is one call of \<^verbatim>\<open>cell\<close>, with the page it
  landed on and the font it was drawn in; \<open>Line page x1 y1 x2 y2\<close> is one call of \<^verbatim>\<open>line\<close>.
\<close>

record pdf =
  page :: nat
  pos_y :: rat
  page_h :: rat
  page_w :: rat
  t_margin :: rat
  b_margin :: rat
  cur_font :: font
  line_width :: rat
  draw_color :: "nat \<times> nat \<times> nat"
  fill_color :: "nat \<times> nat \<times> nat"
  text_color :: "nat \<times> nat \<times> nat"
  str_width :: "font \<Rightarrow> string \<Rightarrow> rat"
  logo_path :: "string option"
  is_first_page :: bool
  content :: "drawing list"

text \<open>
  A method either returns (a value and the document) or raises (an error and the
  document as it was when the error was raised).
\<close>

datatype 'a outcome = Returned 'a pdf | Raised error pdf

type_synonym stmt = "pdf \<Rightarrow> unit outcome"

definition ok :: stmt where
  "ok s = Returned () s"

text \<open>A sequence of statements: an exception skips the rest.\<close>

fun run :: "stmt list \<Rightarrow> stmt" where
  "run [] s = Returned () s"
| "run (f # fs) s = (case f s of Returned _ s' \<Rightarrow> run fs s' | Raised e s' \<Rightarrow> Raised e s')"

text \<open>\<^verbatim>\<open>try: body  except: handler\<close>, catching everything.\<close>

definition try_except :: "stmt \<Rightarrow> stmt \<Rightarrow> stmt" where
  "try_except body handler s =
     (case body s of Returned u s' \<Rightarrow> Returned u s' | Raised e s' \<Rightarrow> handler s')"

definition returned :: "'a outcome \<Rightarrow> bool" where
  "returned r = (case r of Returned _ _ \<Rightarrow> True | Raised _ _ \<Rightarrow> False)"

definition state_of :: "'a outcome \<Rightarrow> pdf" where
  "state_of r = (case r of Returned _ s \<Rightarrow> s | Raised _ s \<Rightarrow> s)"

subsection \<open>Methods of the library\<close>

text \<open>
  \<^verbatim>\<open>set_font(family, style, size)\<close>: the family is lower-cased and \<^verbatim>\<open>arial\<close> is an
  alias of \<^verbatim>\<open>helvetica\<close>; the style is upper-cased, \<^verbatim>\<open>U\<close> (underline, not modelled) is
  taken out of it and \<^verbatim>\<open>IB\<close> is \<^verbatim>\<open>BI\<close>; size 0 keeps the size.  The built-in fonts
  exist in the styles regular, \<^verbatim>\<open>B\<close>, \<^verbatim>\<open>I\<close> and \<^verbatim>\<open>BI\<close>; any other family or style is an
  undefined font, and the call raises.
\<close>

definition set_font :: "string \<Rightarrow> string \<Rightarrow> nat \<Rightarrow> stmt" where
  "set_font fam sty sz s =
     (let fam1 = (if py_lower fam = [] then family (cur_font s) else py_lower fam);
          fam2 = (if fam1 = ''arial'' then ''helvetica'' else fam1);
          sty1 = filter (\<lambda>c. c \<noteq> CHR ''U'') (py_upper sty);
          sty2 = (if fam2 = ''symbol'' \<or> fam2 = ''zapfdingbats'' then []
                  else if sty1 = ''IB'' then ''BI'' else sty1);
          sz1 = (if sz = 0 then size_pt (cur_font s) else sz)
      in if fam2 \<in> set [''courier'', ''helvetica'', ''times'', ''symbol'', ''zapfdingbats'']
            \<and> sty2 \<in> set ['''', ''B'', ''I'', ''BI'']
         then Returned () (s\<lparr>cur_font := \<lparr>family = fam2, style = sty2, size_pt = sz1\<rparr>\<rparr>)
         else Raised FontError s)"

text \<open>\<^verbatim>\<open>ln(h)\<close>: a line break of height \<open>h\<close>.\<close>

definition ln_pdf :: "rat \<Rightarrow> stmt" where
  "ln_pdf h s = Returned () (s\<lparr>pos_y := pos_y s + h\<rparr>)"

definition set_y :: "rat \<Rightarrow> stmt" where
  "set_y v s = Returned () (s\<lparr>pos_y := (if 0 \<le> v then v else page_h s + v)\<rparr>)"

definition line :: "rat \<Rightarrow> rat \<Rightarrow> rat \<Rightarrow> rat \<Rightarrow> stmt" where
  "line x1 y1 x2 y2 s = Returned () (s\<lparr>content := content s @ [Line (page s) x1 y1 x2 y2]\<rparr>)"

definition set_draw_color :: "nat \<Rightarrow> nat \<Rightarrow> nat \<Rightarrow> stmt" where
  "set_draw_color r g b s = Returned () (s\<lparr>draw_color := (r, g, b)\<rparr>)"

definition set_fill_color :: "nat \<Rightarrow> nat \<Rightarrow> nat \<Rightarrow> stmt" where
  "set_fill_color r g b s = Returned () (s\<lparr>fill_color := (r, g, b)\<rparr>)"

definition set_text_color :: "nat \<Rightarrow> nat \<Rightarrow> nat \<Rightarrow> stmt" where
  "set_text_color r g b s = Returned () (s\<lparr>text_color := (r, g, b)\<rparr>)"

definition set_line_width :: "rat \<Rightarrow> stmt" where
  "set_line_width lw s = Returned () (s\<lparr>line_width := lw\<rparr>)"

text \<open>
  What \<^verbatim>\<open>cell\<close> does once it has settled the page: the cell is drawn in the font in
  effect, and the position moves down by the cell's height when \<open>ln\<close> is not 0.
\<close>

definition draw_cell :: "rat \<Rightarrow> rat \<Rightarrow> string \<Rightarrow> nat \<Rightarrow> nat \<Rightarrow> string \<Rightarrow> bool \<Rightarrow> stmt" where
  "draw_cell cw ch txt border lnbrk align fill s =
     Returned ()
       (s\<lparr>content := content s @ [Cell (page s) cw ch txt border lnbrk align fill (cur_font s)],
          pos_y := (if 0 < lnbrk then pos_y s + ch else pos_y s)\<rparr>)"

subsection \<open>\<^verbatim>\<open>LabReportPDF.header\<close> and \<^verbatim>\<open>LabReportPDF.footer\<close>\<close>

definition header :: stmt where
  "header =
     run [ln_pdf 25,
          (\<lambda>s. line 10 (pos_y s) 200 (pos_y s) s),
          ln_pdf 5]"

text \<open>
  The library runs \<^verbatim>\<open>footer\<close> with its \<^verbatim>\<open>in_footer\<close> flag set, under which \<^verbatim>\<open>cell\<close>
  makes no page break: the footer's cell is \<open>draw_cell\<close>.
\<close>

definition footer :: stmt where
  "footer =
     run [set_y (- 50),
          set_y (- 40),
          set_font ''Arial'' ''I'' 8,
          set_text_color 128 128 128,
          draw_cell 0 4 ''Bold Indicates Abnormal Values'' 0 1 ''C'' False,
          ln_pdf 2]"

subsection \<open>Pages\<close>

text \<open>
  \<^verbatim>\<open>add_page\<close>: the footer of the page that ends (when there is one), the new page with
  the position at the top margin, the header; the font, the colours and the line width
  of before the call are put back after the footer and again after the header.
\<close>

definition restore :: "pdf \<Rightarrow> pdf \<Rightarrow> pdf" where
  "restore s0 s =
     s\<lparr>cur_font := cur_font s0, line_width := line_width s0, draw_color := draw_color s0,
       fill_color := fill_color s0, text_color := text_color s0\<rparr>"

definition add_page :: stmt where
  "add_page s =
     (case (if 0 < page s then footer s else Returned () s) of
        Raised e s' \<Rightarrow> Raised e s'
      | Returned _ s1 \<Rightarrow>
          (case header (restore s (s1\<lparr>page := Suc (page s1), pos_y := t_margin s1\<rparr>)) of
             Raised e s' \<Rightarrow> Raised e s'
           | Returned _ s2 \<Rightarrow> Returned () (restore s s2)))"

text \<open>
  \<^verbatim>\<open>cell\<close>: with automatic page breaks on, a cell that would reach into the bottom
  margin first starts a new page.  The library compares floats; the sum and the
  difference are exact here, and the properties of the table rows are stated relative to
  the break this test makes.
\<close>

definition auto_break :: "rat \<Rightarrow> stmt" where
  "auto_break ch s = (if pos_y s + ch > page_h s - b_margin s then add_page s else Returned () s)"

definition cell :: "rat \<Rightarrow> rat \<Rightarrow> string \<Rightarrow> nat \<Rightarrow> nat \<Rightarrow> string \<Rightarrow> bool \<Rightarrow> stmt" where
  "cell cw ch txt border lnbrk align fill =
     run [auto_break ch, draw_cell cw ch txt border lnbrk align fill]"

subsection \<open>\<^verbatim>\<open>LabReportPDF.__init__\<close>\<close>

text \<open>
  An A4 page in millimetres: the library computes the scale \<^verbatim>\<open>k = 72 / 25.4\<close>, the page
  height \<^verbatim>\<open>841.89 / k\<close>, the page width \<^verbatim>\<open>595.28 / k\<close>, the margins \<^verbatim>\<open>28.35 / k\<close> and the
  line width \<^verbatim>\<open>.567 / k\<close> in binary64.  No page yet, no font selected, black colours;
  then \<^verbatim>\<open>set_auto_page_break(auto=True, margin=60)\<close>.  The width of a text in a font comes
  from the library's font tables and is a parameter here.
\<close>

definition scale_k :: rat where
  "scale_k = fdiv 72 (f64 25.4)"

definition LabReportPDF :: "(font \<Rightarrow> string \<Rightarrow> rat) \<Rightarrow> string option \<Rightarrow> pdf" where
  "LabReportPDF metrics logo =
     \<lparr>page = 0, pos_y = 0,
      page_h = fdiv (f64 841.89) scale_k, page_w = fdiv (f64 595.28) scale_k,
      t_margin = fdiv (f64 28.35) scale_k, b_margin = 60,
      cur_font = \<lparr>family = [], style = [], size_pt = 12\<rparr>,
      line_width = fdiv (f64 0.567) scale_k,
      draw_color = (0, 0, 0), fill_color = (0, 0, 0), text_color = (0, 0, 0),
      str_width = metrics, logo_path = logo, is_first_page = True, content = []\<rparr>"

section \<open>The report generator\<close>

subsection \<open>Data\<close>

text \<open>
  A row of a panel's table (a row of the \<^verbatim>\<open>DataFrame\<close>).  The Result cell of the data
  editor holds a text or nothing (\<^verbatim>\<open>None\<close>); the other three columns are fixed texts.
\<close>

record row =
  Test :: string
  Result :: "string option"
  Units :: string
  Normal_Values :: string

record patient_info =
  lab_no :: string
  patient_name :: string
  ref_by :: string
  sample_collection :: string
  reg_date :: string
  sample_date :: string
  report_date :: string
  sex :: string
  age :: nat

definition CBC :: string where
  "CBC = ''Complete Blood Count (CBC)''"

definition LFT :: string where
  "LFT = ''Liver Function Test (LFT)''"

definition KFT :: string where
  "KFT = ''Kidney Function Test (KFT)''"

definition TFT :: string where
  "TFT = ''Thyroid Function Test (TFT)''"

definition REPORT_TYPES :: "(string \<times> string) list" where
  "REPORT_TYPES =
     [(CBC, ''cbc_template.csv''), (LFT, ''lft_template.csv''),
      (KFT, ''kft_template.csv''), (TFT, ''tft_template.csv'')]"

subsection \<open>\<^verbatim>\<open>LabReportPDF.add_report_title\<close>\<close>

definition add_report_title :: "string \<Rightarrow> pdf \<Rightarrow> rat outcome" where
  "add_report_title title s0 =
     (case run [set_font ''Arial'' ''B'' 14,
                (\<lambda>s. let title_width = str_width s (cur_font s) title + 6 in
                   run [cell 0 10 (py_upper title) 0 1 ''C'' False,
                        set_draw_color 0 0 0,
                        set_line_width 0.5,
                        (\<lambda>s'. let x = (page_w s' - title_width) / 2
                              in line x (pos_y s') (x + title_width) (pos_y s') s')] s),
                ln_pdf 6,
                set_font ''Arial'' ''B'' 9,
                set_fill_color 240 240 240,
                cell 60 8 ''TEST'' 0 0 ''L'' True,
                cell 30 8 ''RESULT'' 0 0 ''C'' True,
                cell 25 8 ''UNITS'' 0 0 ''C'' True,
                cell 75 8 ''NORMAL VALUES'' 0 1 ''C'' True,
                ln_pdf 2] s0 of
        Raised e s \<Rightarrow> Raised e s
      | Returned _ s \<Rightarrow> Returned (pos_y s) s)"

text \<open>A call whose value the caller drops.\<close>

definition discard :: "(pdf \<Rightarrow> 'a outcome) \<Rightarrow> stmt" where
  "discard f s = (case f s of Returned _ s' \<Rightarrow> Returned () s' | Raised e s' \<Rightarrow> Raised e s')"

subsection \<open>\<^verbatim>\<open>LabReportPDF.check_page_break\<close> and \<^verbatim>\<open>add_report_section\<close>\<close>

text \<open>
  The difference \<^verbatim>\<open>self.h - 60\<close> and the sum \<^verbatim>\<open>current_y + height_needed\<close> are float
  operations: each is rounded to binary64 before the two are compared.
\<close>

definition check_page_break :: "rat \<Rightarrow> pdf \<Rightarrow> bool outcome" where
  "check_page_break height_needed s =
     (let current_y = pos_y s;
          page_height = binary64 (page_h s - 60)
      in if float_gt (binary64 (current_y + height_needed)) page_height
         then (case add_page s of
                 Raised e s' \<Rightarrow> Raised e s'
               | Returned _ s' \<Rightarrow> Returned True s')
         else Returned False s)"

definition add_report_section :: "string \<Rightarrow> rat \<Rightarrow> stmt" where
  "add_report_section title height_estimate =
     run [discard (check_page_break height_estimate),
          set_font ''Arial'' ''B'' 12,
          cell 0 8 (py_upper title) 0 1 ''C'' False,
          ln_pdf 3]"

subsection \<open>\<^verbatim>\<open>LabReportPDF.add_patient_info\<close>\<close>

definition add_patient_info :: "patient_info \<Rightarrow> stmt" where
  "add_patient_info pinfo =
     run [set_font ''Arial'' ''B'' 9,
          cell 30 5 ''LAB NO.'' 0 0 [] False,
          cell 5 5 '':'' 0 0 [] False,
          cell 50 5 (lab_no pinfo) 0 0 [] False,
          cell 30 5 ''REG DATE'' 0 0 [] False,
          cell 5 5 '':'' 0 0 [] False,
          cell 50 5 (reg_date pinfo) 0 1 [] False,
          cell 30 5 ''PATIENT NAME'' 0 0 [] False,
          cell 5 5 '':'' 0 0 [] False,
          cell 50 5 (patient_name pinfo) 0 0 [] False,
          cell 30 5 ''SAMPLE DATE'' 0 0 [] False,
          cell 5 5 '':'' 0 0 [] False,
          cell 50 5 (sample_date pinfo) 0 1 [] False,
          cell 30 5 ''REF. BY DR.'' 0 0 [] False,
          cell 5 5 '':'' 0 0 [] False,
          cell 50 5 (ref_by pinfo) 0 0 [] False,
          cell 30 5 ''REPORT DATE'' 0 0 [] False,
          cell 5 5 '':'' 0 0 [] False,
          cell 50 5 (report_date pinfo) 0 1 [] False,
          cell 30 5 ''SAMPLE COLL. AT'' 0 0 [] False,
          cell 5 5 '':'' 0 0 [] False,
          cell 50 5 (sample_collection pinfo) 0 0 [] False,
          cell 30 5 ''SEX / AGE'' 0 0 [] False,
          cell 5 5 '':'' 0 0 [] False,
          cell 50 5 (sex pinfo @ '' / '' @ str_nat (age pinfo) @ '' Years'') 0 1 [] False,
          ln_pdf 5,
          set_draw_color 0 0 0,
          (\<lambda>s. line 10 (pos_y s) 200 (pos_y s) s),
          ln_pdf 5]"

subsection \<open>\<^verbatim>\<open>LabReportPDF.add_test_table\<close>\<close>

text \<open>
  The first \<^verbatim>\<open>try\<close> of the loop body: \<^verbatim>\<open>lower_value\<close> and \<^verbatim>\<open>upper_value\<close> start as
  \<^verbatim>\<open>None\<close>; the lower bound is assigned before the upper bound is computed, so a
  failure in the second line leaves the first assignment in place.
\<close>

definition parse_range :: "string \<Rightarrow> pyfloat option \<times> pyfloat option" where
  "parse_range normal_values =
     (case index (py_split CHR ''-'' normal_values) 0 of
        Inl _ \<Rightarrow> (None, None)
      | Inr a \<Rightarrow>
      (case py_float a of
        Inl _ \<Rightarrow> (None, None)
      | Inr lower_value \<Rightarrow>
      (case index (py_split CHR ''-'' normal_values) 1 of
        Inl _ \<Rightarrow> (Some lower_value, None)
      | Inr b \<Rightarrow>
      (case index (py_split CHR '' '' b) 1 of
        Inl _ \<Rightarrow> (Some lower_value, None)
      | Inr c \<Rightarrow>
      (case py_float c of
        Inl _ \<Rightarrow> (Some lower_value, None)
      | Inr upper_value \<Rightarrow> (Some lower_value, Some upper_value))))))"

text \<open>The truth value of \<^verbatim>\<open>lower_value\<close> / \<^verbatim>\<open>upper_value\<close>: \<^verbatim>\<open>None\<close> and zero are false.\<close>

definition truthy_opt :: "pyfloat option \<Rightarrow> bool" where
  "truthy_opt v = (case v of None \<Rightarrow> False | Some x \<Rightarrow> truthy x)"

definition result_str_of :: "row \<Rightarrow> string" where
  "result_str_of r = (case Result r of None \<Rightarrow> [] | Some v \<Rightarrow> v)"

text \<open>
  Lines 232 to 256: the Result cell.  \<^verbatim>\<open>float(result_str)\<close> is evaluated first in the
  condition of line 234 (and again in the comparisons, with the same value).  The two
  \<^verbatim>\<open>else\<close> branches ask for a font style of four blanks.
\<close>

definition result_cell :: "string \<Rightarrow> pyfloat option \<Rightarrow> pyfloat option \<Rightarrow> stmt" where
  "result_cell result_str lower_value upper_value =
     (if result_str \<noteq> [] \<and> py_strip result_str \<noteq> [] then
        try_except
          (\<lambda>s. case py_float result_str of
                  Inl e \<Rightarrow> Raised e s
                | Inr v \<Rightarrow>
                    if truthy v \<and> truthy_opt lower_value \<and> truthy_opt upper_value then
                      if float_lt v (the lower_value) then
                        run [set_font ''Arial'' ''B'' 9,
                             cell 30 5 result_str 0 0 ''C'' False,
                             set_font ''Arial'' '''' 9] s
                      else if float_gt v (the upper_value) then
                        run [set_font ''Arial'' ''B'' 9,
                             cell 30 5 result_str 0 0 ''C'' False,
                             set_font ''Arial'' '''' 9] s
                      else
                        run [set_font ''Arial'' ''    '' 9,
                             cell 30 5 result_str 0 0 ''C'' False,
                             set_font ''Arial'' '''' 9] s
                    else
                      run [set_font ''Arial'' ''    '' 9,
                           cell 30 5 result_str 0 0 ''C'' False,
                           set_font ''Arial'' '''' 9] s)
          (run [set_font ''Arial'' '''' 9,
                cell 30 5 result_str 0 0 ''C'' False,
                set_font ''Arial'' '''' 9])
      else cell 30 5 result_str 0 0 ''C'' False)"

definition add_test_row :: "row \<Rightarrow> stmt" where
  "add_test_row r =
     (let result_str = result_str_of r;
          (lower_value, upper_value) = parse_range (Normal_Values r)
      in run [cell 60 5 (Test r) 0 0 ''L'' False,
              result_cell result_str lower_value upper_value,
              cell 25 5 (Units r) 0 0 ''C'' False,
              cell 75 5 (Normal_Values r) 0 1 ''C'' False])"

definition table_head :: "string option \<Rightarrow> stmt list" where
  "table_head section_title =
     (case section_title of
        None \<Rightarrow> []
      | Some t \<Rightarrow>
          if t \<noteq> [] then
            [set_font ''Arial'' ''B'' 10,
             cell 0 6 (py_upper t) 0 1 ''L'' False,
             ln_pdf 2]
          else [])
     @ [set_font ''Arial'' '''' 9]"

definition add_test_table :: "row list \<Rightarrow> string option \<Rightarrow> stmt" where
  "add_test_table data section_title =
     run (table_head section_title @ map add_test_row data @ [ln_pdf 5])"

subsection \<open>\<^verbatim>\<open>generate_cbc_report\<close> and \<^verbatim>\<open>generate_lft_report\<close>\<close>

definition has_result :: "row \<Rightarrow> bool" where
  "has_result r = (case Result r of None \<Rightarrow> False | Some v \<Rightarrow> py_strip v \<noteq> [])"

definition print_if_has_result :: "row list \<Rightarrow> string option \<Rightarrow> stmt" where
  "print_if_has_result rows section_title =
     (let rows' = filter has_result rows
      in if rows' \<noteq> [] then add_test_table rows' section_title else ok)"

text \<open>\<^verbatim>\<open>data[data['Test'].isin(tests)]\<close>\<close>

definition isin :: "string list \<Rightarrow> row list \<Rightarrow> row list" where
  "isin tests data = filter (\<lambda>r. Test r \<in> set tests) data"

definition generate_cbc_report :: "patient_info \<Rightarrow> (string \<rightharpoonup> row list) \<Rightarrow> stmt" where
  "generate_cbc_report pinfo report_data s =
     (case report_data CBC of
        None \<Rightarrow> Raised KeyError s
      | Some data \<Rightarrow>
          run [discard (add_report_title ''COMPLETE BLOOD COUNT(CBC)''),
               print_if_has_result (isin [''Haemoglobin'', ''RBC Count'', ''PCV''] data) None,
               print_if_has_result (isin [''MCV'', ''MCH'', ''MCHC'', ''RDW''] data)
                 (Some ''RBC INDICES''),
               print_if_has_result
                 (isin [''Total WBC Count'', ''Neutrophils'', ''Lymphocytes'', ''Eosinophils'',
                        ''Monocytes'', ''Basophils''] data)
                 (Some ''TOTAL WBC COUNT''),
               print_if_has_result (isin [''Platelet Count'', ''Platelets on Smear''] data)
                 (Some ''PLATELETS''),
               print_if_has_result
                 (isin [''RBC Morphology'', ''WBCs on PS'', ''RDWSD'', ''RDWCV'', ''MPV'',
                        ''P-LCR''] data)
                 (Some ''PERIPHERAL BLOOD SMEAR''),
               set_font ''Arial'' ''I'' 8,
               cell 0 5 ''Test done on Nihon Kohden MEK- 6420K fully automated cell counter.''
                 0 1 [] False,
               ln_pdf 5] s)"

definition generate_lft_report :: "patient_info \<Rightarrow> (string \<rightharpoonup> row list) \<Rightarrow> stmt" where
  "generate_lft_report pinfo report_data s =
     (case report_data LFT of
        None \<Rightarrow> Raised KeyError s
      | Some data \<Rightarrow>
          run [discard (add_report_title ''Liver Function Test (LFT)''),
               print_if_has_result
                 (isin [''Bilirubin Total'', ''Bilirubin Direct'', ''Bilirubin Indirect'',
                        ''S.G.O.T.'', ''S.G.P.T.'', ''Alkaline Phosphatase'', ''Total Proteins'',
                        ''Albumin'', ''Globulin'', ''A / G Ratio'', ''G.G.T.P.''] data)
                 None,
               set_font ''Arial'' ''I'' 8,
               cell 0 5 ''Test Done on semi automated analyser Micro Lab RX-50.'' 0 1 [] False,
               ln_pdf 5] s)"

subsection \<open>\<^verbatim>\<open>create_pdf_report\<close>\<close>

text \<open>
  The world outside the program: the files on disk, the clock (as the text
  \<^verbatim>\<open>datetime.now().strftime('%Y%m%d_%H%M%S')\<close> gives), and which file names the system
  refuses to write or to remove.  A PDF file holds what was drawn.
\<close>

datatype file_content = PdfFile "drawing list" | OtherFile

record world =
  files :: "string \<rightharpoonup> file_content"
  clock :: string
  write_fails :: "string \<Rightarrow> bool"
  remove_fails :: "string \<Rightarrow> bool"

text \<open>
  \<^verbatim>\<open>pdf.output(name)\<close> closes the document (a document without a page gets one; the
  last page gets its footer) and writes the file.
\<close>

definition pdf_output :: "string \<Rightarrow> pdf \<Rightarrow> world \<Rightarrow> (error + unit) \<times> world" where
  "pdf_output name s w =
     (case run [(\<lambda>s. if page s = 0 then add_page s else ok s), footer] s of
        Raised e _ \<Rightarrow> (Inl e, w)
      | Returned _ s' \<Rightarrow>
          if write_fails w name then (Inl OSError, w)
          else (Inr (), w\<lparr>files := (files w)(name \<mapsto> PdfFile (content s'))\<rparr>))"

text \<open>The body of the loop over \<^verbatim>\<open>selected_reports\<close>.\<close>

definition report_step ::
  "patient_info \<Rightarrow> (string \<rightharpoonup> row list) \<Rightarrow> string list \<Rightarrow> string \<Rightarrow> stmt" where
  "report_step pinfo report_data selected_reports report_name =
     run [(if report_name = CBC then generate_cbc_report pinfo report_data
           else if report_name = LFT then generate_lft_report pinfo report_data
           else ok),
          (if report_name \<noteq> last selected_reports
           then run [add_page, add_patient_info pinfo]
           else ok)]"

definition build_report ::
  "patient_info \<Rightarrow> (string \<rightharpoonup> row list) \<Rightarrow> string list \<Rightarrow> stmt" where
  "build_report pinfo report_data selected_reports =
     run ([add_page, add_patient_info pinfo]
          @ map (report_step pinfo report_data selected_reports) selected_reports)"

definition report_filename :: "patient_info \<Rightarrow> world \<Rightarrow> string" where
  "report_filename pinfo w =
     map (\<lambda>c. if c = CHR '' '' then CHR ''_'' else c) (patient_name pinfo)
     @ ''_'' @ clock w @ ''.pdf''"

definition create_pdf_report ::
  "(font \<Rightarrow> string \<Rightarrow> rat) \<Rightarrow> patient_info \<Rightarrow> (string \<rightharpoonup> row list) \<Rightarrow> string list
     \<Rightarrow> string option \<Rightarrow> world \<Rightarrow> (error + string) \<times> world" where
  "create_pdf_report metrics pinfo report_data selected_reports logo w =
     (case build_report pinfo report_data selected_reports (LabReportPDF metrics logo) of
        Raised e _ \<Rightarrow> (Inl e, w)
      | Returned _ s \<Rightarrow>
          (let filename = report_filename pinfo w in
           case pdf_output filename s w of
             (Inl e, w') \<Rightarrow> (Inl e, w')
           | (Inr _, w') \<Rightarrow> (Inr filename, w')))"

subsection \<open>\<^verbatim>\<open>load_report_template\<close>\<close>

text \<open>
  \<^verbatim>\<open>pd.DataFrame(data)\<close> on a dictionary of four columns: the rows, when the columns have
  the same length, and a \<^verbatim>\<open>ValueError\<close> otherwise.
\<close>

definition DataFrame ::
  "string list \<Rightarrow> string list \<Rightarrow> string list \<Rightarrow> string list \<Rightarrow> error + row list" where
  "DataFrame tests results units normals =
     (if length results = length tests \<and> length units = length tests
         \<and> length normals = length tests
      then Inr (map (\<lambda>(t, r, u, n). \<lparr>Test = t, Result = Some r, Units = u, Normal_Values = n\<rparr>)
                  (zip tests (zip results (zip units normals))))
      else Inl ValueError)"

text \<open>The Greek letter mu (U+03BC) of the thyroid units, in UTF-8.\<close>

definition mu :: string where
  "mu = [CHR 0xCE, CHR 0xBC]"

text \<open>The columns of the four hard-coded tables, and of the table of any other name.\<close>

definition cbc_tests :: "string list" where
  "cbc_tests =
     [''Haemoglobin'', ''RBC Count'', ''PCV'',
      ''MCV'', ''MCH'', ''MCHC'', ''RDW'',
      ''Total WBC Count'', ''Neutrophils'', ''Lymphocytes'',
      ''Eosinophils'', ''Monocytes'', ''Basophils'',
      ''Platelet Count'', ''Platelets on Smear'',
      ''RBC Morphology'', ''WBCs on PS'', ''RDWSD'', ''RDWCV'', ''MPV'', ''P-LCR'']"

definition cbc_units :: "string list" where
  "cbc_units =
     [''g%'', ''million/cu.mm.'', ''%'',
      ''fl'', ''pg'', ''%'', ''fl'',
      ''/cu.mm'', ''%'', ''%'',
      ''%'', ''%'', ''%'',
      ''lak/cu.mm'', [],
      [], [], ''fl'', ''%'', ''fl'', ''%'']"

definition cbc_normal_values :: "string list" where
  "cbc_normal_values =
     [''Male: 14 - 16 g%, Female: 12 - 14 g%'', ''4.0 - 6.0 million/cu.mm'', ''35 - 60 %'',
      ''80 - 99 fl'', ''27 - 31 pg'', ''32 - 37 %'', ''9 - 17 fl'',
      ''4000 - 10,000 /cu.mm'', ''40 - 70 %'', ''20 - 45 %'',
      ''00 - 06 %'', ''00 - 08 %'', ''00 - 01 %'',
      ''150000 - 450000 /lak cu.mm'', ''Adequate On Smear'',
      ''Normocytic, Normochromic'', ''Normal'', ''37 - 54 fl'', ''11 - 16 %'', ''9 - 13 fl'',
      ''13 - 43 %'']"

definition lft_tests :: "string list" where
  "lft_tests =
     [''Bilirubin Total'', ''Bilirubin Direct'', ''Bilirubin Indirect'', ''S.G.O.T.'',
      ''S.G.P.T.'', ''Alkaline Phosphatase'', ''Total Proteins'', ''Albumin'', ''Globulin'',
      ''A / G Ratio'', ''G.G.T.P.'']"

definition lft_units :: "string list" where
  "lft_units =
     [''mg/dl'', ''mg/dl'', ''mg/dl'', ''U/L'', ''IU/L'', ''IU/L'',
      ''gm/dl'', ''gm/dl'', ''gm/dl'', [], ''IU/L'']"

definition lft_normal_values :: "string list" where
  "lft_normal_values =
     [''0.1 - 1.2 mg/dl'', ''0.1 - 0.4 mg/dl'', ''0.1 - 0.7 mg/dl'',
      ''0 - 46 U/L'', ''0 - 49 U/L'', ''15 - 112 IU/L'',
      ''6.0 - 8.3 gm/dl'', ''3.2 - 5.0 gm/dl'', ''2.0 - 3.5 gm/dl'', ''1.0 - 2.3'',
      ''25 - 43 IU/L'']"

definition kft_tests :: "string list" where
  "kft_tests =
     [''Blood Urea'', ''Serum Creatinine'', ''Uric Acid'',
      ''Sodium'', ''Potassium'', ''Chloride'']"

definition kft_units :: "string list" where
  "kft_units = [''mg/dl'', ''mg/dl'', ''mg/dl'', ''mEq/L'', ''mEq/L'', ''mEq/L'']"

definition kft_normal_values :: "string list" where
  "kft_normal_values =
     [''15 - 45 mg/dl'', ''0.6 - 1.4 mg/dl'', ''2.4 - 7.0 mg/dl'',
      ''135 - 155 mEq/L'', ''3.5 - 5.5 mEq/L'', ''98 - 107 mEq/L'']"

definition tft_tests :: "string list" where
  "tft_tests = [''T3 (Triiodothyronine)'', ''T4 (Thyroxine)'', ''TSH'']"

definition tft_units :: "string list" where
  "tft_units = [''ng/ml'', mu @ ''g/dl'', mu @ ''IU/ml'']"

definition tft_normal_values :: "string list" where
  "tft_normal_values =
     [''0.8 - 2.0 ng/ml'', ''4.8 - 12.7 '' @ mu @ ''g/dl'', ''0.27 - 4.2 '' @ mu @ ''IU/ml'']"

definition load_report_template :: "string \<Rightarrow> error + row list" where
  "load_report_template report_name =
     (if report_name = CBC then
        DataFrame cbc_tests (replicate 21 []) cbc_units cbc_normal_values
      else if report_name = LFT then
        DataFrame lft_tests (replicate 11 []) lft_units lft_normal_values
      else if report_name = KFT then
        DataFrame kft_tests (replicate 6 []) kft_units kft_normal_values
      else if report_name = TFT then
        DataFrame tft_tests (replicate 3 []) tft_units tft_normal_values
      else
        DataFrame
          [''Test 1'', ''Test 2'', ''Test 3'']
          [[], [], []]
          [''unit 1'', ''unit 2'', ''unit 3'']
          [''normal 1'', ''normal 2'', ''normal 3''])"

subsection \<open>\<^verbatim>\<open>main\<close>: the handler of the Generate button\<close>

text \<open>What the handler shows on the page.\<close>

datatype shown =
    Success
  | Download string file_content
  | ErrorMessage error

definition main_logo_path :: string where
  "main_logo_path =
     ''C:'' @ [CHR 0x5C] @ ''Users'' @ [CHR 0x5C] @ ''Admin'' @ [CHR 0x5C] @ ''Pictures''
     @ [CHR 0x5C] @ ''Screenshots'' @ [CHR 0x5C] @ ''Screenshot 2025-06-26 140637.png''"

text \<open>
  Lines 532 to 567.  The report is created, its file is read back for the download
  link, and then removed; an error of the removal is swallowed (\<^verbatim>\<open>except: pass\<close>), any
  other error is shown.
\<close>

definition main_generate ::
  "(font \<Rightarrow> string \<Rightarrow> rat) \<Rightarrow> patient_info \<Rightarrow> (string \<rightharpoonup> row list) \<Rightarrow> string list
     \<Rightarrow> world \<Rightarrow> shown list \<times> world" where
  "main_generate metrics patient_data report_data selected_reports w =
     (let logo_to_use =
            (if main_logo_path \<noteq> [] \<and> main_logo_path \<noteq> ''/path/to/your/logo.png''
                \<and> files w main_logo_path \<noteq> None
             then Some main_logo_path else None)
      in case create_pdf_report metrics patient_data report_data selected_reports logo_to_use w of
           (Inl e, w1) \<Rightarrow> ([ErrorMessage e], w1)
         | (Inr pdf_filename, w1) \<Rightarrow>
             (case files w1 pdf_filename of
                None \<Rightarrow> ([Success, ErrorMessage OSError], w1)
              | Some pdf_data \<Rightarrow>
                  ([Success, Download pdf_filename pdf_data],
                   if remove_fails w1 pdf_filename then w1
                   else w1\<lparr>files := (files w1)(pdf_filename := None)\<rparr>)))"

section \<open>Notions used to state the properties\<close>

text \<open>
  Every document of the program is made by \<open>LabReportPDF\<close>, so it has that page height
  and those margins; no method changes them.
\<close>

definition a4 :: "pdf \<Rightarrow> bool" where
  "a4 s = (page_h s = fdiv (f64 841.89) scale_k \<and> t_margin s = fdiv (f64 28.35) scale_k
           \<and> b_margin s = 60)"

text \<open>The two fonts of the table rows (\<^verbatim>\<open>Arial\<close> is the library's \<^verbatim>\<open>helvetica\<close>).\<close>

definition regular9 :: font where
  "regular9 = \<lparr>family = ''helvetica'', style = [], size_pt = 9\<rparr>"

definition bold9 :: font where
  "bold9 = \<lparr>family = ''helvetica'', style = ''B'', size_pt = 9\<rparr>"

text \<open>
  What a page break draws: the footer of the page that ends (on page 0 there is none)
  and the rule of the new page's header.
\<close>

definition page_break_marks :: "pdf \<Rightarrow> drawing list" where
  "page_break_marks s =
     (if 0 < page s
      then [Cell (page s) 0 4 ''Bold Indicates Abnormal Values'' 0 1 ''C'' False
              \<lparr>family = ''helvetica'', style = ''I'', size_pt = 8\<rparr>]
      else [])
     @ [Line (Suc (page s)) 10 (t_margin s + 25) 200 (t_margin s + 25)]"

text \<open>The document after the page break, if any, that a cell of height \<open>ch\<close> causes.\<close>

definition after_break :: "rat \<Rightarrow> pdf \<Rightarrow> pdf" where
  "after_break ch s = state_of (auto_break ch s)"

text \<open>
  The four cells of a table row on page \<open>p\<close>, with the Result cell in font \<open>f\<close> and the
  other three in the regular 9-point font.
\<close>

definition row_cells :: "nat \<Rightarrow> row \<Rightarrow> font \<Rightarrow> drawing list" where
  "row_cells p r f =
     [Cell p 60 5 (Test r) 0 0 ''L'' False regular9,
      Cell p 30 5 (result_str_of r) 0 0 ''C'' False f,
      Cell p 25 5 (Units r) 0 0 ''C'' False regular9,
      Cell p 75 5 (Normal_Values r) 0 1 ''C'' False regular9]"

text \<open>
  The document when the loop of \<open>add_test_table data section_title\<close>, started in \<open>s\<close>,
  has rendered the first \<open>k\<close> rows.
\<close>

definition at_row :: "row list \<Rightarrow> string option \<Rightarrow> nat \<Rightarrow> stmt" where
  "at_row data section_title k = run (table_head section_title @ map add_test_row (take k data))"

text \<open>
  \<open>renders_row data section_title s k f\<close>: the call \<open>add_test_table data section_title\<close> on the
  document \<open>s\<close> reaches row \<open>k\<close>, renders it without an exception and goes on with the
  rows after it; what the row draws is, after the page break its first cell may cause,
  exactly its four cells, the Result cell in font \<open>f\<close> and the others in the regular
  9-point font; and the font in effect after the row is the regular 9-point font.
\<close>

definition renders_row :: "row list \<Rightarrow> string option \<Rightarrow> pdf \<Rightarrow> nat \<Rightarrow> font \<Rightarrow> bool" where
  "renders_row data section_title s k f =
     (let before = at_row data section_title k s;
          sb = after_break 5 (state_of before);
          after = add_test_row (data ! k) (state_of before)
      in returned before \<and> returned after
         \<and> add_test_table data section_title s
             = run (map add_test_row (drop (Suc k) data) @ [ln_pdf 5]) (state_of after)
         \<and> content (state_of after) = content sb @ row_cells (page sb) (data ! k) f
         \<and> cur_font (state_of after) = regular9)"

text \<open>
  The condition under which lines 232 to 256 draw the Result cell in bold, given the text
  of the result and the two bounds left by the range parser.
\<close>

definition result_bold :: "string \<Rightarrow> pyfloat option \<Rightarrow> pyfloat option \<Rightarrow> bool" where
  "result_bold rs lo hi =
     (rs \<noteq> [] \<and> py_strip rs \<noteq> [] \<and>
      (case py_float rs of
         Inl _ \<Rightarrow> False
       | Inr v \<Rightarrow> truthy v \<and> truthy_opt lo \<and> truthy_opt hi
                  \<and> (float_lt v (the lo) \<or> float_gt v (the hi))))"

definition row_font :: "row \<Rightarrow> font" where
  "row_font r =
     (if result_bold (result_str_of r) (fst (parse_range (Normal_Values r)))
           (snd (parse_range (Normal_Values r)))
      then bold9 else regular9)"

text \<open>Python's \<^verbatim>\<open><=\<close> on floats.\<close>

definition float_le :: "pyfloat \<Rightarrow> pyfloat \<Rightarrow> bool" where
  "float_le a b = (float_lt a b \<or> float_eq a b)"

text \<open>A range text whose two bounds, when both parse, are in order.\<close>

definition ordered_range :: "string \<Rightarrow> bool" where
  "ordered_range nv =
     (case parse_range nv of
        (Some lo, Some hi) \<Rightarrow> float_le lo hi
      | _ \<Rightarrow> True)"

text \<open>The handler showed the success message and the download link, and nothing else.\<close>

definition shows_download :: "shown list \<Rightarrow> bool" where
  "shows_download evs =
     (case evs of [Success, Download _ _] \<Rightarrow> True | _ \<Rightarrow> False)"

subsection \<open>Concrete inputs\<close>

text \<open>
  A font table (any would do), a patient, the first page of a fresh document with the
  table font selected, and a world in which no file can be removed.
\<close>

definition demo_metrics :: "font \<Rightarrow> string \<Rightarrow> rat" where
  "demo_metrics f t = of_nat (size_pt f) * of_nat (length t) / 5"

definition demo_patient :: patient_info where
  "demo_patient =
     \<lparr>lab_no = ''2'', patient_name = ''MR. A B'', ref_by = ''DR. C'',
      sample_collection = ''CRYSTAL LAB'', reg_date = ''01-Jan-2025 10:00 AM'',
      sample_date = ''01-Jan-2025 10:05 AM'', report_date = ''01-Jan-2025 11:00 AM'',
      sex = ''Male'', age = 23\<rparr>"

definition page1 :: pdf where
  "page1 = state_of (add_page (LabReportPDF demo_metrics None))"

definition demo_world :: "bool \<Rightarrow> world" where
  "demo_world locked =
     \<lparr>files = Map.empty, clock = ''20250101_110000'',
      write_fails = (\<lambda>_. False), remove_fails = (\<lambda>_. locked)\<rparr>"

definition kft_filled :: "row list" where
  "kft_filled =
     [\<lparr>Test = ''Blood Urea'', Result = Some ''30'', Units = ''mg/dl'',
       Normal_Values = ''15 - 45 mg/dl''\<rparr>,
      \<lparr>Test = ''Sodium'', Result = Some ''160'', Units = ''mEq/L'',
       Normal_Values = ''135 - 155 mEq/L''\<rparr>]"

text \<open>A column of a loaded table.\<close>

definition column :: "(row \<Rightarrow> 'a) \<Rightarrow> error + row list \<Rightarrow> error + 'a list" where
  "column f t = (case t of Inl e \<Rightarrow> Inl e | Inr rows \<Rightarrow> Inr (map f rows))"


text \<open>
  Rows of the blood-count table with a result entered, and rows without a result.
\<close>

definition pcv_high :: row where
  "pcv_high = \<lparr>Test = ''PCV'', Result = Some ''90'', Units = ''%'', Normal_Values = ''35 - 60 %''\<rparr>"

definition pcv_at_bound :: row where
  "pcv_at_bound =
     \<lparr>Test = ''PCV'', Result = Some ''60'', Units = ''%'', Normal_Values = ''35 - 60 %''\<rparr>"

definition eos_high :: row where
  "eos_high =
     \<lparr>Test = ''Eosinophils'', Result = Some ''9'', Units = ''%'', Normal_Values = ''00 - 06 %''\<rparr>"

definition wbc_text :: row where
  "wbc_text =
     \<lparr>Test = ''Total WBC Count'', Result = Some ''high'', Units = ''/cu.mm'',
      Normal_Values = ''4000 - 10,000 /cu.mm''\<rparr>"


section \<open>Lemmas about \<^verbatim>\<open>float\<close>\<close>

lemma bitlen_le: "n < 2 ^ k \<Longrightarrow> bitlen n \<le> k"
proof (induction k arbitrary: n)
  case 0
  then show ?case by (simp add: bitlen.simps)
next
  case (Suc k)
  show ?case
  proof (cases "n \<le> 0")
    case True
    then show ?thesis by (simp add: bitlen.simps)
  next
    case False
    from Suc.prems have "n div 2 < 2 ^ k" by simp
    from Suc.IH [OF this] False show ?thesis by (subst bitlen.simps) simp
  qed
qed

lemma quotient_of_of_int: "quotient_of (of_int z) = (z, 1)"
  by (simp add: Fract_of_int_eq [symmetric] quotient_of_Fract Rat.normalize_def)

lemma bitlen_one: "bitlen 1 = 1"
  by (simp add: bitlen.simps)

lemma round_half_even_int: "round_half_even (of_int z) = z"
  by (simp add: round_half_even_def)

lemma pow2_nonpos: "e \<le> 0 \<Longrightarrow> pow2 e = 1 / 2 ^ nat (- e)"
  by (simp add: pow2_def)

text \<open>An integer below \<open>2 ^ 53\<close> in absolute value is a binary64 value: rounding keeps it.\<close>

lemma binary64_int:
  assumes "\<bar>n\<bar> < 2 ^ 53"
  shows "binary64 (of_int n) = Finite (of_int n)"
proof (cases "n = 0")
  case True
  then show ?thesis by (simp add: binary64_def)
next
  case False
  define a :: rat where "a = \<bar>of_int n\<bar>"
  have a: "a = of_int \<bar>n\<bar>" by (simp add: a_def)
  have "bitlen \<bar>n\<bar> \<le> 53" using assms by (rule bitlen_le)
  moreover have "quotient_of a = (\<bar>n\<bar>, 1)" by (simp only: a quotient_of_of_int)
  ultimately have "ilog2 a \<le> 52"
    by (simp add: ilog2_def bitlen_one Let_def)
  define e where "e = max (ilog2 a - 52) (- 1074)"
  have e: "e \<le> 0" using \<open>ilog2 a \<le> 52\<close> by (simp add: e_def)
  define m where "m = nat (- e)"
  have p: "pow2 e = 1 / 2 ^ m" using e by (simp add: pow2_nonpos m_def)
  have "a / pow2 e = of_int (\<bar>n\<bar> * 2 ^ m)" by (simp add: p a)
  then have r: "round_half_even (a / pow2 e) = \<bar>n\<bar> * 2 ^ m"
    by (simp only: round_half_even_int)
  have v: "of_int (round_half_even (a / pow2 e)) * pow2 e = a"
  proof -
    have "of_int (round_half_even (a / pow2 e)) * pow2 e = of_int (\<bar>n\<bar> * 2 ^ m) * pow2 e"
      by (simp only: r)
    also have "\<dots> = a" by (simp add: p a)
    finally show ?thesis .
  qed
  have "(of_int \<bar>n\<bar> :: rat) < 2 ^ 53"
    using assms by (metis of_int_less_numeral_power_cancel_iff)
  also have "\<dots> \<le> 2 ^ 1024" by simp
  finally have small: "\<not> pow2 1024 \<le> a" by (simp add: pow2_def a)
  show ?thesis
    using False small
    unfolding binary64_def Let_def a_def [symmetric] e_def [symmetric] v
    by (auto simp: a_def)
qed

lemma binary64_numeral:
  "numeral k < (2 ^ 53 :: int) \<Longrightarrow> binary64 (numeral k) = Finite (numeral k)"
  using binary64_int [of "numeral k"] by simp

lemma binary64_zero: "binary64 0 = Finite 0"
  by (simp add: binary64_def)

lemmas float_eval =
  py_float_def byte_def c_strip_def c_isspace_def parse_abs_def py_lower_def lower_c_def
  not_e_def parse_number_def is_digit_def digits_val_def scale10_def binary64_numeral
  binary64_zero parse_range_def index_def

lemmas strip_eval =
  py_strip_def py_lstrip.simps py_rstrip.simps uspace_len_def uspace_end_len_def byte_def

section \<open>The rounding to binary64, evaluated\<close>

lemma pow2_powi: "pow2 e = power_int 2 e"
  by (simp add: pow2_def power_int_def power_inverse [symmetric] inverse_eq_divide power_one_over)

lemma pow2_pos: "0 < pow2 e"
  by (simp add: pow2_def)

lemma pow2_add: "pow2 (a + b) = pow2 a * pow2 b"
  by (simp add: pow2_powi power_int_add)

lemma pow2_less: "a < b \<Longrightarrow> pow2 a < pow2 b"
  by (simp add: pow2_powi power_int_strict_increasing)

lemma pow2_le: "a \<le> b \<Longrightarrow> pow2 a \<le> pow2 b"
  by (simp add: pow2_powi power_int_increasing)

lemma pow2_nat: "pow2 (int n) = 2 ^ n"
  by (simp add: pow2_def)

lemma bitlen_bounds: "0 < n \<Longrightarrow> 2 ^ (bitlen n - 1) \<le> n \<and> n < 2 ^ bitlen n"
proof (induction n rule: bitlen.induct)
  case (1 n)
  show ?case
  proof (cases "n div 2 \<le> 0")
    case True
    with "1.prems" have "n = 1" by linarith
    then show ?thesis by (simp add: bitlen.simps)
  next
    case False
    then have pos: "0 < n div 2" by simp
    from "1.IH" [OF _ pos] "1.prems"
    have ih: "2 ^ (bitlen (n div 2) - 1) \<le> n div 2" "n div 2 < 2 ^ bitlen (n div 2)" by simp_all
    have b: "bitlen n = Suc (bitlen (n div 2))"
      using "1.prems" by (subst bitlen.simps) simp
    have bp: "0 < bitlen (n div 2)"
      using pos by (subst bitlen.simps) simp
    have "2 * 2 ^ (bitlen (n div 2) - 1) \<le> 2 * (n div 2)" using ih(1) by simp
    also have "\<dots> \<le> n" by simp
    finally have lo: "2 ^ (bitlen n - 1) \<le> n"
      using bp by (simp add: b power_Suc [symmetric] del: power_Suc)
    have "n < 2 * (n div 2) + 2" by linarith
    also have "\<dots> \<le> 2 * 2 ^ bitlen (n div 2)" using ih(2) by simp
    finally have hi: "n < 2 ^ bitlen n" by (simp add: b)
    from lo hi show ?thesis by simp
  qed
qed

lemma ilog2_bounds:
  assumes "0 < q"
  shows "pow2 (ilog2 q) \<le> q \<and> q < pow2 (ilog2 q + 1)"
proof -
  obtain n d where nd: "quotient_of q = (n, d)" by force
  have d: "0 < d" using nd quotient_of_denom_pos by blast
  have q: "q = of_int n / of_int d" using nd by (rule quotient_of_div)
  have n: "0 < n" using assms d by (simp add: q zero_less_divide_iff)
  define k where "k = int (bitlen n) - int (bitlen d)"
  from bitlen_bounds [OF n] bitlen_bounds [OF d]
  have bn: "2 ^ (bitlen n - 1) \<le> n" "n < 2 ^ bitlen n"
    and bd: "2 ^ (bitlen d - 1) \<le> d" "d < 2 ^ bitlen d" by simp_all
  have bnp: "0 < bitlen n" using n by (subst bitlen.simps) simp
  have bdp: "0 < bitlen d" using d by (subst bitlen.simps) simp
  have rn: "(2::rat) ^ (bitlen n - 1) \<le> of_int n" "(of_int n :: rat) < 2 ^ bitlen n"
    using bn by (metis of_int_le_iff of_int_numeral of_int_power, metis of_int_less_iff of_int_numeral of_int_power)
  have rd: "(2::rat) ^ (bitlen d - 1) \<le> of_int d" "(of_int d :: rat) < 2 ^ bitlen d"
    using bd by (metis of_int_le_iff of_int_numeral of_int_power, metis of_int_less_iff of_int_numeral of_int_power)
  have dpos: "(0::rat) < of_int d" using d by simp
  text \<open>\<open>2 ^ (k - 1) < q < 2 ^ (k + 1)\<close>\<close>
  have lo: "pow2 (k - 1) \<le> q"
  proof -
    have "pow2 (k - 1) * of_int d \<le> pow2 (k - 1) * 2 ^ bitlen d"
      using rd(2) pow2_pos [of "k - 1"] by (simp add: mult_left_mono)
    also have "\<dots> = pow2 (k - 1 + int (bitlen d))"
      by (simp add: pow2_add pow2_nat)
    also have "k - 1 + int (bitlen d) = int (bitlen n - 1)"
      using bnp by (simp add: k_def)
    also have "pow2 (int (bitlen n - 1)) \<le> of_int n"
      using rn(1) by (simp add: pow2_nat)
    finally show ?thesis using dpos by (simp add: q pos_le_divide_eq)
  qed
  have hi: "q < pow2 (k + 1)"
  proof -
    have "of_int n < pow2 (int (bitlen n))" using rn(2) by (simp add: pow2_nat)
    also have "int (bitlen n) = (k + 1) + int (bitlen d - 1)"
      using bdp by (simp add: k_def)
    also have "pow2 (k + 1 + int (bitlen d - 1)) = pow2 (k + 1) * 2 ^ (bitlen d - 1)"
      by (simp add: pow2_add pow2_nat)
    also have "\<dots> \<le> pow2 (k + 1) * of_int d"
      using rd(1) pow2_pos [of "k + 1"] by (simp add: mult_left_mono)
    finally show ?thesis using dpos by (simp add: q pos_divide_less_eq)
  qed
  have il: "ilog2 q = (if pow2 k \<le> q then k else k - 1)"
    by (simp add: ilog2_def nd k_def Let_def)
  show ?thesis
  proof (cases "pow2 k \<le> q")
    case True
    then show ?thesis using hi by (simp add: il)
  next
    case False
    then show ?thesis using lo by (simp add: il)
  qed
qed

lemma ilog2_unique:
  assumes "pow2 k \<le> q" and "q < pow2 (k + 1)"
  shows "ilog2 q = k"
proof -
  have "0 < q" using assms(1) pow2_pos [of k] by simp
  from ilog2_bounds [OF this]
  have b: "pow2 (ilog2 q) \<le> q" "q < pow2 (ilog2 q + 1)" by simp_all
  have "\<not> k + 1 \<le> ilog2 q"
  proof
    assume "k + 1 \<le> ilog2 q"
    from pow2_le [OF this] b(1) assms(2) show False by simp
  qed
  moreover have "\<not> ilog2 q + 1 \<le> k"
  proof
    assume "ilog2 q + 1 \<le> k"
    from pow2_le [OF this] b(2) assms(1) show False by simp
  qed
  ultimately show ?thesis by simp
qed

lemma round_half_even_eqI:
  assumes "\<bar>x - of_int m\<bar> < 1 / 2 \<or> (\<bar>x - of_int m\<bar> = 1 / 2 \<and> even m)"
  shows "round_half_even x = m"
proof (cases "of_int m \<le> x")
  case True
  then have f: "\<lfloor>x\<rfloor> = m"
    using assms by (intro floor_unique) auto
  show ?thesis
    using assms True by (auto simp: round_half_even_def f Let_def)
next
  case False
  then have f: "\<lfloor>x\<rfloor> = m - 1"
    using assms by (intro floor_unique) auto
  show ?thesis
    using assms False by (auto simp: round_half_even_def f Let_def)
qed

text \<open>
  The value of \<open>binary64\<close> at a positive number of the normal range, from its binary
  exponent \<open>k\<close> and its rounded 53-bit significand \<open>m\<close>.
\<close>

lemma binary64_eval:
  assumes "pow2 k \<le> q" and "q < pow2 (k + 1)" and "- 1022 \<le> k" and "k < 1023"
    and "\<bar>q / pow2 (k - 52) - of_int m\<bar> < 1 / 2
         \<or> (\<bar>q / pow2 (k - 52) - of_int m\<bar> = 1 / 2 \<and> even m)"
    and "v = of_int m * pow2 (k - 52)"
    and "v < pow2 1024"
  shows "binary64 q = Finite v"
proof -
  have pos: "0 < q" using assms(1) pow2_pos [of k] by simp
  have il: "ilog2 \<bar>q\<bar> = k"
    using pos assms(1,2) by (simp add: ilog2_unique)
  have e: "max (ilog2 \<bar>q\<bar> - 52) (- 1074) = k - 52"
    using assms(3) by (simp add: il)
  have r: "round_half_even (q / pow2 (k - 52)) = m"
    using assms(5) by (rule round_half_even_eqI)
  show ?thesis
    using pos assms(6,7)
    unfolding binary64_def Let_def e
    by (simp add: r)
qed

section \<open>The geometry of the page, evaluated\<close>

lemma fval_Finite: "fval (Finite q) = q"
  by (simp add: fval_def)

lemma b64_25_4: "binary64 (25.4) = Finite (3574732204225331 / 140737488355328)"
  by (rule binary64_eval [where k = "4" and m = "7149464408450662"])
     (simp_all add: pow2_def)

lemma b64_scale_k: "binary64 (72 / (3574732204225331 / 140737488355328)) = Finite (1595763647493483 / 562949953421312)"
  by (rule binary64_eval [where k = "1" and m = "6383054589973932"])
     (simp_all add: pow2_def)

lemma b64_841_89: "binary64 (841.89) = Finite (7405342754466693 / 8796093022208)"
  by (rule binary64_eval [where k = "9" and m = "7405342754466693"])
     (simp_all add: pow2_def)

lemma b64_page_h: "binary64 (7405342754466693 / 8796093022208 / (1595763647493483 / 562949953421312)) = Finite (5224880721207055 / 17592186044416)"
  by (rule binary64_eval [where k = "8" and m = "5224880721207055"])
     (simp_all add: pow2_def)

lemma b64_28_35: "binary64 (28.35) = Finite (3989907794873549 / 140737488355328)"
  by (rule binary64_eval [where k = "4" and m = "7979815589747098"])
     (simp_all add: pow2_def)

lemma b64_t_margin: "binary64 (3989907794873549 / 140737488355328 / (1595763647493483 / 562949953421312)) = Finite (351887701353431 / 35184372088832)"
  by (rule binary64_eval [where k = "3" and m = "5630203221654896"])
     (simp_all add: pow2_def)

lemma scale_k_value: "scale_k = 1595763647493483 / 562949953421312"
  unfolding scale_k_def fdiv_def f64_def b64_25_4 fval_Finite b64_scale_k ..

text \<open>The page height \<^verbatim>\<open>297.0000833333333\<close> and the top margin \<^verbatim>\<open>10.001249999999999\<close>.\<close>

lemma page_h_value: "fdiv (f64 841.89) scale_k = 5224880721207055 / 17592186044416"
  unfolding fdiv_def f64_def b64_841_89 fval_Finite scale_k_value b64_page_h ..

lemma t_margin_value: "fdiv (f64 28.35) scale_k = 351887701353431 / 35184372088832"
  unfolding fdiv_def f64_def b64_28_35 fval_Finite scale_k_value b64_t_margin ..

lemma a4_values:
  assumes "a4 s"
  shows "page_h s = 5224880721207055 / 17592186044416" and "t_margin s = 351887701353431 / 35184372088832" and "b_margin s = 60"
  using assms unfolding a4_def page_h_value t_margin_value by simp_all

lemma b64_example_y: "binary64 (236.9000833333333) = Finite (8335180679875307 / 35184372088832)"
  by (rule binary64_eval [where k = "7" and m = "8335180679875307"])
     (simp_all add: pow2_def)

lemma b64_example_h: "binary64 (0.1) = Finite (3602879701896397 / 36028797018963968)"
  by (rule binary64_eval [where k = "- 4" and m = "7205759403792794"])
     (simp_all add: pow2_def)

lemma b64_example_sum: "binary64 (8335180679875307 / 35184372088832 + 3602879701896397 / 36028797018963968) = Finite (4169349558542095 / 17592186044416)"
  by (rule binary64_eval [where k = "7" and m = "8338699117084190"])
     (simp_all add: pow2_def)

lemma b64_example_limit: "binary64 (5224880721207055 / 17592186044416 - 60) = Finite (4169349558542095 / 17592186044416)"
  by (rule binary64_eval [where k = "7" and m = "8338699117084190"])
     (simp_all add: pow2_def)

section \<open>Lemmas about the library model\<close>

lemma run_append:
  "run (xs @ ys) s = (case run xs s of Returned _ s' \<Rightarrow> run ys s' | Raised e s' \<Rightarrow> Raised e s')"
  by (induction xs arbitrary: s) (auto split: outcome.splits)

lemma lower_arial: "py_lower ''Arial'' = ''arial''"
  by code_simp

lemma set_font_arial:
  "sty \<in> {[], ''B'', ''I''} \<Longrightarrow> 0 < sz \<Longrightarrow>
   set_font ''Arial'' sty sz s
     = Returned () (s\<lparr>cur_font := \<lparr>family = ''helvetica'', style = sty, size_pt = sz\<rparr>\<rparr>)"
  by (auto simp add: set_font_def lower_arial py_upper_def upper_c_def byte_def)

lemma set_font_regular9: "set_font ''Arial'' [] 9 s = Returned () (s\<lparr>cur_font := regular9\<rparr>)"
  by (simp add: set_font_arial regular9_def)

lemma set_font_bold9: "set_font ''Arial'' ''B'' 9 s = Returned () (s\<lparr>cur_font := bold9\<rparr>)"
  by (simp add: set_font_arial bold9_def)

lemma set_font_blanks: "set_font ''Arial'' ''    '' 9 s = Raised FontError s"
  by (simp add: set_font_def lower_arial py_upper_def upper_c_def byte_def)

lemma footer_eq:
  "footer s = Returned () (s\<lparr>pos_y := page_h s - 40 + 4 + 2,
      cur_font := \<lparr>family = ''helvetica'', style = ''I'', size_pt = 8\<rparr>,
      text_color := (128, 128, 128),
      content := content s @ [Cell (page s) 0 4 ''Bold Indicates Abnormal Values'' 0 1 ''C'' False
          \<lparr>family = ''helvetica'', style = ''I'', size_pt = 8\<rparr>]\<rparr>)"
  by (simp add: footer_def set_y_def set_font_arial set_text_color_def draw_cell_def ln_pdf_def)

lemma header_eq:
  "header s = Returned () (s\<lparr>pos_y := pos_y s + 30,
      content := content s @ [Line (page s) 10 (pos_y s + 25) 200 (pos_y s + 25)]\<rparr>)"
  by (simp add: header_def ln_pdf_def line_def)

lemma add_page_eq:
  "add_page s = Returned () (s\<lparr>page := Suc (page s), pos_y := t_margin s + 30,
      content := content s @ page_break_marks s\<rparr>)"
  by (simp add: add_page_def footer_eq header_eq restore_def page_break_marks_def)

lemma auto_break_eq:
  "auto_break ch s =
     Returned () (if pos_y s + ch > page_h s - b_margin s
                  then s\<lparr>page := Suc (page s), pos_y := t_margin s + 30,
                         content := content s @ page_break_marks s\<rparr>
                  else s)"
  by (simp add: auto_break_def add_page_eq)

lemma auto_break_after: "auto_break ch s = Returned () (after_break ch s)"
  by (simp add: after_break_def auto_break_eq state_of_def)

lemma after_break_fields [simp]:
  "cur_font (after_break ch s) = cur_font s"
  "page_h (after_break ch s) = page_h s"
  "t_margin (after_break ch s) = t_margin s"
  "b_margin (after_break ch s) = b_margin s"
  by (simp_all add: after_break_def auto_break_eq state_of_def)

lemma a4_after_break [simp]: "a4 (after_break ch s) = a4 s"
  by (simp add: a4_def)

lemma after_break_room:
  "a4 s \<Longrightarrow> ch \<le> 190 \<Longrightarrow> pos_y (after_break ch s) + ch \<le> page_h s - b_margin s"
  using a4_values [of s] by (simp add: after_break_def auto_break_eq state_of_def)

lemma after_break_settled:
  "pos_y s + ch \<le> page_h s - b_margin s \<Longrightarrow> after_break ch s = s"
  by (simp add: after_break_def auto_break_eq state_of_def)

lemma cell_eq: "cell cw ch txt b l a f s = draw_cell cw ch txt b l a f (after_break ch s)"
  by (simp add: cell_def auto_break_after draw_cell_def)

lemma cell_settled:
  "pos_y s + ch \<le> page_h s - b_margin s \<Longrightarrow>
   cell cw ch txt b l a f s = draw_cell cw ch txt b l a f s"
  by (simp add: cell_eq after_break_settled)

section \<open>Lemmas about the table rows\<close>

lemma result_cell_eq:
  assumes "pos_y s + 5 \<le> page_h s - b_margin s" and "cur_font s = regular9"
  shows "result_cell rs lo hi s =
           Returned () (s\<lparr>content := content s @
               [Cell (page s) 30 5 rs 0 0 ''C'' False
                  (if result_bold rs lo hi then bold9 else regular9)]\<rparr>)"
  using assms
  by (auto simp add: result_cell_def result_bold_def try_except_def set_font_bold9
      set_font_regular9 set_font_blanks cell_settled draw_cell_def split: sum.splits)

lemma add_test_row_eq:
  assumes "a4 s" and "cur_font s = regular9"
  shows "add_test_row r s =
           Returned () ((after_break 5 s)\<lparr>
               content := content (after_break 5 s)
                  @ row_cells (page (after_break 5 s)) r (row_font r),
               pos_y := pos_y (after_break 5 s) + 5\<rparr>)"
proof -
  define sb where "sb = after_break 5 s"
  have room: "pos_y sb + 5 \<le> page_h sb - b_margin sb"
    using after_break_room [of s 5] assms(1) by (simp add: sb_def)
  have fnt: "cur_font sb = regular9" using assms(2) by (simp add: sb_def)
  obtain lo hi where pr: "parse_range (Normal_Values r) = (lo, hi)" by force
  have c1: "cell 60 5 (Test r) 0 0 ''L'' False s =
              Returned () (sb\<lparr>content := content sb
                 @ [Cell (page sb) 60 5 (Test r) 0 0 ''L'' False regular9]\<rparr>)"
    by (simp add: cell_eq draw_cell_def sb_def [symmetric] fnt)
  show ?thesis
    unfolding add_test_row_def row_font_def pr sb_def [symmetric]
    using room fnt
    by (simp add: c1 result_cell_eq cell_settled draw_cell_def row_cells_def)
qed

lemma table_head_ok:
  assumes "a4 s"
  shows "\<exists>s'. run (table_head title) s = Returned () s' \<and> a4 s' \<and> cur_font s' = regular9"
proof (cases "\<exists>t. title = Some t \<and> t \<noteq> []")
  case True
  then obtain t where t: "title = Some t" "t \<noteq> []" by blast
  show ?thesis
    using assms
    by (simp add: table_head_def t set_font_arial cell_eq draw_cell_def ln_pdf_def set_font_regular9
        a4_def)
next
  case False
  then have "table_head title = [set_font ''Arial'' [] 9]"
    by (auto simp: table_head_def split: option.splits)
  then show ?thesis using assms by (simp add: set_font_regular9 a4_def)
qed

lemma add_test_row_ok:
  assumes "a4 s" and "cur_font s = regular9"
  shows "\<exists>s'. add_test_row r s = Returned () s' \<and> a4 s' \<and> cur_font s' = regular9"
  using assms by (simp add: add_test_row_eq a4_def)

lemma rows_ok:
  "a4 s \<Longrightarrow> cur_font s = regular9 \<Longrightarrow>
   \<exists>s'. run (map add_test_row rows) s = Returned () s' \<and> a4 s' \<and> cur_font s' = regular9"
proof (induction rows arbitrary: s)
  case Nil
  then show ?case by simp
next
  case (Cons r rows)
  from add_test_row_ok [OF Cons.prems] obtain s1 where
    s1: "add_test_row r s = Returned () s1" "a4 s1" "cur_font s1 = regular9" by blast
  from Cons.IH [OF s1(2,3)] show ?case by (simp add: s1(1))
qed

lemma at_row_ok:
  assumes "a4 s"
  shows "\<exists>s1. at_row data title k s = Returned () s1 \<and> a4 s1 \<and> cur_font s1 = regular9"
proof -
  from table_head_ok [OF assms] obtain s0 where
    s0: "run (table_head title) s = Returned () s0" "a4 s0" "cur_font s0 = regular9" by blast
  from rows_ok [OF s0(2,3)] show ?thesis by (simp add: at_row_def run_append s0(1))
qed

lemma at_row_Suc:
  assumes "k < length data" and "at_row data title k s = Returned () s1"
  shows "at_row data title (Suc k) s = add_test_row (data ! k) s1"
  using assms
  by (auto simp add: at_row_def run_append take_Suc_conv_app_nth split: outcome.splits)

lemma add_test_table_from_row:
  assumes "at_row data title (Suc k) s = Returned () s2"
  shows "add_test_table data title s = run (map add_test_row (drop (Suc k) data) @ [ln_pdf 5]) s2"
proof -
  have "table_head title @ map add_test_row data @ [ln_pdf 5] =
        (table_head title @ map add_test_row (take (Suc k) data))
        @ (map add_test_row (drop (Suc k) data) @ [ln_pdf 5])"
    by (simp add: map_append [symmetric] del: map_append)
  then show ?thesis
    using assms unfolding add_test_table_def at_row_def
    by (simp only: run_append) simp
qed

text \<open>Every row of the table is rendered, and its Result cell is in the font \<open>row_font\<close>.\<close>

lemma renders_row_font:
  assumes "a4 s" and "k < length data"
  shows "renders_row data title s k (row_font (data ! k))"
proof -
  from at_row_ok [OF assms(1)] obtain s1 where
    s1: "at_row data title k s = Returned () s1" "a4 s1" "cur_font s1 = regular9" by blast
  note row = add_test_row_eq [OF s1(2,3), of "data ! k"]
  have nxt: "at_row data title (Suc k) s = add_test_row (data ! k) s1"
    using assms(2) s1(1) by (rule at_row_Suc)
  have tbl: "add_test_table data title s
               = run (map add_test_row (drop (Suc k) data) @ [ln_pdf 5])
                   (state_of (add_test_row (data ! k) s1))"
    by (rule add_test_table_from_row) (simp add: nxt row state_of_def)
  show ?thesis
    unfolding renders_row_def Let_def s1(1)
    using tbl s1(3) by (simp add: state_of_def returned_def row)
qed

text \<open>The fonts of a row are determined: a row is not rendered in two ways.\<close>

lemma renders_row_unique:
  assumes "renders_row data title s k f" and "renders_row data title s k g"
  shows "f = g"
  using assms by (simp add: renders_row_def Let_def row_cells_def)

section \<open>Further lemmas\<close>

lemma float_lt_asym: "float_lt a b \<Longrightarrow> \<not> float_lt b a"
  by (cases a; cases b) auto

lemma float_lt_irrefl: "\<not> float_lt a a"
  by (cases a) auto

lemma row_font_cases: "row_font r = bold9 \<or> row_font r = regular9"
  by (simp add: row_font_def)

lemma bold9_neq_regular9: "bold9 \<noteq> regular9"
  by (simp add: bold9_def regular9_def)

text \<open>
  When the result passes the guard of line 232 and the result and both bounds are
  non-zero numbers, the Result cell is bold exactly when the result is below the lower or
  above the upper bound.
\<close>

lemma row_font_bold_iff:
  assumes "py_strip (result_str_of r) \<noteq> []"
    and "py_float (result_str_of r) = Inr v"
    and "parse_range (Normal_Values r) = (Some lo, Some hi)"
    and "truthy v" and "truthy lo" and "truthy hi"
  shows "row_font r = bold9 \<longleftrightarrow> float_lt v lo \<or> float_gt v hi"
proof -
  have "py_strip [] = []"
    by (simp add: strip_eval)
  then have "result_str_of r \<noteq> []"
    using assms(1) by auto
  then show ?thesis
    using assms
    by (simp add: row_font_def result_bold_def truthy_opt_def bold9_neq_regular9
        bold9_neq_regular9 [symmetric])
qed

text \<open>A zero result or a zero bound always gives the regular font.\<close>

lemma row_font_zero:
  assumes "py_float (result_str_of r) = Inr (Finite 0)
           \<or> fst (parse_range (Normal_Values r)) = Some (Finite 0)
           \<or> snd (parse_range (Normal_Values r)) = Some (Finite 0)"
  shows "row_font r = regular9"
  using assms
  by (auto simp add: row_font_def result_bold_def truthy_opt_def truthy_def split: sum.splits)

text \<open>A result or a range that does not parse gives the regular font.\<close>

lemma row_font_unparsed:
  assumes "isl (py_float (result_str_of r))
           \<or> fst (parse_range (Normal_Values r)) = None
           \<or> snd (parse_range (Normal_Values r)) = None"
  shows "row_font r = regular9"
  using assms
  by (auto simp add: row_font_def result_bold_def truthy_opt_def split: sum.splits)

text \<open>A result on a bound of a range whose bounds are in order gives the regular font.\<close>

lemma row_font_on_bound:
  assumes "py_float (result_str_of r) = Inr v"
    and "parse_range (Normal_Values r) = (Some lo, Some hi)"
    and "float_le lo hi"
    and "float_eq v lo \<or> float_eq v hi"
  shows "row_font r = regular9"
proof -
  have "\<not> float_lt v lo \<and> \<not> float_gt v hi"
    using assms(3,4) float_lt_asym [of lo hi] float_lt_irrefl [of lo] float_lt_irrefl [of hi]
    by (auto simp: float_le_def float_eq_def float_gt_def)
  then show ?thesis
    using assms(1,2) by (simp add: row_font_def result_bold_def)
qed

text \<open>No statement of the table raises.\<close>

lemma returned_simps [simp]: "returned (Returned x s)" "\<not> returned (Raised e s)"
  by (simp_all add: returned_def)

lemma run_returns:
  "(\<And>f s. f \<in> set fs \<Longrightarrow> returned (f s)) \<Longrightarrow> returned (run fs s)"
proof (induction fs arbitrary: s)
  case Nil
  then show ?case by simp
next
  case (Cons f fs)
  have "returned (f s)" using Cons.prems by simp
  then obtain s' where "f s = Returned () s'"
    by (cases "f s") auto
  then show ?case using Cons by simp
qed

lemma cell_returns: "returned (cell cw ch txt b l a f s)"
  by (simp add: cell_eq draw_cell_def)

lemma result_cell_returns: "returned (result_cell rs lo hi s)"
  by (auto simp add: result_cell_def try_except_def set_font_bold9 set_font_regular9
      set_font_blanks cell_eq draw_cell_def split: sum.splits)

lemma add_test_row_returns: "returned (add_test_row r s)"
proof -
  obtain lo hi where pr: "parse_range (Normal_Values r) = (lo, hi)" by force
  show ?thesis
    unfolding add_test_row_def pr Let_def prod.case
    by (rule run_returns) (auto simp: cell_returns result_cell_returns)
qed

lemma add_test_table_returns: "returned (add_test_table data title s)"
  unfolding add_test_table_def
  by (rule run_returns)
     (auto simp: table_head_def set_font_arial set_font_regular9 cell_returns ln_pdf_def
        add_test_row_returns split: option.splits if_splits)

section \<open>Properties of the table rows\<close>

lemma page1_a4: "a4 page1"
  by (simp add: a4_def page1_def add_page_eq state_of_def LabReportPDF_def)

lemma eos_high_parses:
  "py_float (result_str_of eos_high) = Inr (Finite 9)"
  "parse_range (Normal_Values eos_high) = (Some (Finite 0), Some (Finite 6))"
  by (simp_all add: eos_high_def result_str_of_def float_eval)

lemma pcv_high_font: "row_font pcv_high = bold9"
  by (simp add: row_font_def result_bold_def pcv_high_def result_str_of_def float_eval
      strip_eval truthy_def truthy_opt_def float_gt_def)

lemma pcv_at_bound_parses:
  "py_float (result_str_of pcv_at_bound) = Inr (Finite 60)"
  "parse_range (Normal_Values pcv_at_bound) = (Some (Finite 35), Some (Finite 60))"
  by (simp_all add: pcv_at_bound_def result_str_of_def float_eval)

lemma wbc_text_unparsed:
  "isl (py_float (result_str_of wbc_text))"
  "snd (parse_range (Normal_Values wbc_text)) = None"
  by (simp_all add: wbc_text_def result_str_of_def float_eval)

text \<open>
  C1, at a failing input.  The claim: for a row whose Result parses as a float and whose
  Normal Values give a lower bound L and an upper bound U, the Result cell is bold exactly
  when the result is below L or above U.  The row of the blood-count table for
  Eosinophils has the range \<^verbatim>\<open>00 - 06 %\<close>; with the result \<^verbatim>\<open>9\<close> the result parses
  to 9, the bounds to 0 and 6, and 9 is above 6, yet \<open>add_test_table\<close> renders the
  Result cell in the regular font and not in bold: the lower bound 0 is false in the
  condition of line 234.
\<close>

theorem C1_zero_bound_is_not_bold:
  "py_float (result_str_of eos_high) = Inr (Finite 9)
   \<and> parse_range (Normal_Values eos_high) = (Some (Finite 0), Some (Finite 6))
   \<and> float_gt (Finite 9) (Finite 6)
   \<and> renders_row [eos_high] (Some ''TOTAL WBC COUNT'') page1 0 regular9
   \<and> \<not> renders_row [eos_high] (Some ''TOTAL WBC COUNT'') page1 0 bold9"
proof -
  have f: "row_font eos_high = regular9"
    by (rule row_font_zero) (simp add: eos_high_parses)
  have r: "renders_row [eos_high] (Some ''TOTAL WBC COUNT'') page1 0 regular9"
    using renders_row_font [OF page1_a4, of 0 "[eos_high]" "Some ''TOTAL WBC COUNT''"]
    by (simp add: f)
  have "\<not> renders_row [eos_high] (Some ''TOTAL WBC COUNT'') page1 0 bold9"
  proof
    assume "renders_row [eos_high] (Some ''TOTAL WBC COUNT'') page1 0 bold9"
    from renders_row_unique [OF r this] show False
      using bold9_neq_regular9 by simp
  qed
  with r show ?thesis by (simp add: eos_high_parses float_gt_def)
qed

text \<open>
  C4.  Bold-facing is confined to the Result column: for every row that \<open>add_test_table\<close>
  renders into a document of the program, whatever the Result and the Normal Values are,
  the Test, Units and Normal Values cells are drawn in the regular 9-point font, only the
  Result cell may be in another font (the bold 9-point font, under the condition
  \<open>result_bold\<close>), and the font in effect after the row is the regular 9-point font.
\<close>

theorem C4_bold_confined_to_result_column:
  assumes "a4 s" and "k < length data"
  shows "renders_row data section_title s k (row_font (data ! k))
         \<and> (row_font (data ! k) = bold9 \<or> row_font (data ! k) = regular9)"
  using renders_row_font [OF assms] row_font_cases by blast

theorem C4_witness:
  "a4 page1 \<and> (1 :: nat) < length [eos_high, pcv_high]
   \<and> renders_row [eos_high, pcv_high] None page1 1 bold9"
  using C4_bold_confined_to_result_column [OF page1_a4, of 1 "[eos_high, pcv_high]" None]
  by (simp add: page1_a4 pcv_high_font)

text \<open>
  C8.  \<open>add_test_table\<close> raises no exception, whatever the rows hold; and a row whose
  Result does not parse as a number, or whose Normal Values do not give both bounds
  (a bound with a comma, a textual range, no \<^verbatim>\<open>-\<close>), is rendered with its Result text
  unchanged in the regular font.
\<close>

theorem C8_parse_failures_are_caught:
  "returned (add_test_table data section_title s)
   \<and> (a4 s \<and> k < length data
        \<and> (isl (py_float (result_str_of (data ! k)))
             \<or> fst (parse_range (Normal_Values (data ! k))) = None
             \<or> snd (parse_range (Normal_Values (data ! k))) = None)
       \<longrightarrow> renders_row data section_title s k regular9)"
proof (intro conjI impI)
  show "returned (add_test_table data section_title s)"
    by (rule add_test_table_returns)
next
  assume h: "a4 s \<and> k < length data
        \<and> (isl (py_float (result_str_of (data ! k)))
             \<or> fst (parse_range (Normal_Values (data ! k))) = None
             \<or> snd (parse_range (Normal_Values (data ! k))) = None)"
  then have "row_font (data ! k) = regular9"
    by (intro row_font_unparsed) simp
  with h renders_row_font [of s k data section_title]
  show "renders_row data section_title s k regular9" by simp
qed

theorem C8_witness:
  "returned (add_test_table [wbc_text] None page1)
   \<and> a4 page1 \<and> (0 :: nat) < length [wbc_text]
   \<and> isl (py_float (result_str_of ([wbc_text] ! 0)))
   \<and> snd (parse_range (Normal_Values ([wbc_text] ! 0))) = None
   \<and> renders_row [wbc_text] None page1 0 regular9"
  using C8_parse_failures_are_caught [of "[wbc_text]" None page1 0]
  by (simp add: page1_a4 wbc_text_unparsed)

section \<open>Page breaks\<close>

lemma check_page_break_eq:
  "check_page_break height_needed s =
     (if float_gt (binary64 (pos_y s + height_needed)) (binary64 (page_h s - 60))
      then Returned True
             (s\<lparr>page := Suc (page s), pos_y := t_margin s + 30,
                content := content s @ page_break_marks s\<rparr>)
      else Returned False s)"
  by (simp add: check_page_break_def add_page_eq)

text \<open>
  The comparison is made on floats.  At the position \<^verbatim>\<open>236.9000833333333\<close> of an A4 page a
  height of \<^verbatim>\<open>0.1\<close> starts no page: the exact sum of the two floats is above the page
  height minus 60, the float sum is equal to it.
\<close>

lemma example_floats:
  "f64 236.9000833333333 = 8335180679875307 / 35184372088832"
  "f64 0.1 = 3602879701896397 / 36028797018963968"
  unfolding f64_def b64_example_y b64_example_h fval_Finite by (rule refl)+

lemma check_page_break_rounds:
  "check_page_break (f64 0.1) (page1\<lparr>pos_y := f64 236.9000833333333\<rparr>)
     = Returned False (page1\<lparr>pos_y := f64 236.9000833333333\<rparr>)
   \<and> page_h page1 - 60 < f64 236.9000833333333 + f64 0.1"
proof -
  have ph: "page_h page1 = 5224880721207055 / 17592186044416"
    by (rule a4_values(1) [OF page1_a4])
  have lim: "binary64 (page_h page1 - 60) = Finite (4169349558542095 / 17592186044416)"
    unfolding ph by (rule b64_example_limit)
  have sum: "binary64 (f64 236.9000833333333 + f64 0.1) = Finite (4169349558542095 / 17592186044416)"
    unfolding example_floats by (rule b64_example_sum)
  have "\<not> float_gt (binary64 (f64 236.9000833333333 + f64 0.1)) (binary64 (page_h page1 - 60))"
    unfolding lim sum by (simp add: float_gt_def)
  then have "check_page_break (f64 0.1) (page1\<lparr>pos_y := f64 236.9000833333333\<rparr>)
               = Returned False (page1\<lparr>pos_y := f64 236.9000833333333\<rparr>)"
    by (simp add: check_page_break_eq)
  moreover have "page_h page1 - 60 < f64 236.9000833333333 + f64 0.1"
    unfolding ph example_floats by simp
  ultimately show ?thesis by simp
qed

text \<open>
  C5.  For every vertical position y and every requested height h, \<open>check_page_break\<close>
  starts a new page and returns \<open>True\<close> when y + h exceeds the page height minus 60, and
  otherwise returns \<open>False\<close> and leaves the document (its page and its position among the
  rest) as it was.  The sum, the difference and the comparison are those of the code, on
  floats: each of \<^verbatim>\<open>y + h\<close> and \<^verbatim>\<open>page_height - 60\<close> is rounded to binary64 before the two
  are compared.  Starting the page draws the footer of the old page and the rule of the
  new header, and puts the position below the header.
\<close>

theorem C5_check_page_break:
  "check_page_break height_needed s =
     (if float_gt (binary64 (pos_y s + height_needed)) (binary64 (page_h s - 60))
      then Returned True
             (s\<lparr>page := Suc (page s), pos_y := t_margin s + 30,
                content := content s @ page_break_marks s\<rparr>)
      else Returned False s)"
  by (simp add: check_page_break_def add_page_eq)

section \<open>The templates\<close>

lemma names_distinct:
  "CBC \<noteq> LFT" "CBC \<noteq> KFT" "CBC \<noteq> TFT" "LFT \<noteq> KFT" "LFT \<noteq> TFT" "KFT \<noteq> TFT"
  "LFT \<noteq> CBC" "KFT \<noteq> CBC" "TFT \<noteq> CBC" "KFT \<noteq> LFT" "TFT \<noteq> LFT" "TFT \<noteq> KFT"
  by (simp_all add: CBC_def LFT_def KFT_def TFT_def)

lemma rows_columns:
  assumes "length ts = length rs" and "length rs = length us" and "length us = length ns"
  shows "map Test (map (\<lambda>(t, r, u, n). \<lparr>Test = t, Result = Some r, Units = u, Normal_Values = n\<rparr>)
            (zip ts (zip rs (zip us ns)))) = ts
       \<and> map Result (map (\<lambda>(t, r, u, n). \<lparr>Test = t, Result = Some r, Units = u, Normal_Values = n\<rparr>)
            (zip ts (zip rs (zip us ns)))) = map Some rs
       \<and> map Units (map (\<lambda>(t, r, u, n). \<lparr>Test = t, Result = Some r, Units = u, Normal_Values = n\<rparr>)
            (zip ts (zip rs (zip us ns)))) = us
       \<and> map Normal_Values (map (\<lambda>(t, r, u, n). \<lparr>Test = t, Result = Some r, Units = u, Normal_Values = n\<rparr>)
            (zip ts (zip rs (zip us ns)))) = ns"
  using assms by (induction ts rs us ns rule: list_induct4) auto

lemma column_DataFrame:
  assumes "length rs = length ts" and "length us = length ts" and "length ns = length ts"
  shows "column Test (DataFrame ts rs us ns) = Inr ts"
    and "column Result (DataFrame ts rs us ns) = Inr (map Some rs)"
    and "column Units (DataFrame ts rs us ns) = Inr us"
    and "column Normal_Values (DataFrame ts rs us ns) = Inr ns"
  using assms rows_columns [of ts rs us ns]
  by (simp_all add: column_def DataFrame_def)

lemma template_lengths:
  "length cbc_tests = 21" "length cbc_units = 21" "length cbc_normal_values = 21"
  "length lft_tests = 11" "length lft_units = 11" "length lft_normal_values = 11"
  "length kft_tests = 6" "length kft_units = 6" "length kft_normal_values = 6"
  "length tft_tests = 3" "length tft_units = 3" "length tft_normal_values = 3"
  by (simp_all add: cbc_tests_def cbc_units_def cbc_normal_values_def lft_tests_def
      lft_units_def lft_normal_values_def kft_tests_def kft_units_def kft_normal_values_def
      tft_tests_def tft_units_def tft_normal_values_def)

text \<open>
  C3.  For each of the four panel names \<open>load_report_template\<close> returns a table (the
  construction of the table does not fail: the columns have one length) whose Test, Units
  and Normal Values columns are the fixed lists of the program, with 21 rows for CBC, 11
  for LFT, 6 for KFT and 3 for TFT, and whose Result column is the empty text in every
  row.  The table is a function of the name alone, so two calls with one name give one
  table.
\<close>

theorem C3_templates:
  "column Test (load_report_template CBC) = Inr cbc_tests
   \<and> column Units (load_report_template CBC) = Inr cbc_units
   \<and> column Normal_Values (load_report_template CBC) = Inr cbc_normal_values
   \<and> column Result (load_report_template CBC) = Inr (replicate 21 (Some []))
   \<and> length cbc_tests = 21
   \<and> column Test (load_report_template LFT) = Inr lft_tests
   \<and> column Units (load_report_template LFT) = Inr lft_units
   \<and> column Normal_Values (load_report_template LFT) = Inr lft_normal_values
   \<and> column Result (load_report_template LFT) = Inr (replicate 11 (Some []))
   \<and> length lft_tests = 11
   \<and> column Test (load_report_template KFT) = Inr kft_tests
   \<and> column Units (load_report_template KFT) = Inr kft_units
   \<and> column Normal_Values (load_report_template KFT) = Inr kft_normal_values
   \<and> column Result (load_report_template KFT) = Inr (replicate 6 (Some []))
   \<and> length kft_tests = 6
   \<and> column Test (load_report_template TFT) = Inr tft_tests
   \<and> column Units (load_report_template TFT) = Inr tft_units
   \<and> column Normal_Values (load_report_template TFT) = Inr tft_normal_values
   \<and> column Result (load_report_template TFT) = Inr (replicate 3 (Some []))
   \<and> length tft_tests = 3"
  by (simp add: load_report_template_def names_distinct column_DataFrame template_lengths)

lemma template_row_eosinophils:
  "map_sum id (\<lambda>rows. rows ! 10) (load_report_template CBC)
     = Inr \<lparr>Test = ''Eosinophils'', Result = Some [], Units = ''%'',
            Normal_Values = ''00 - 06 %''\<rparr>"
  by (simp add: load_report_template_def DataFrame_def cbc_tests_def cbc_units_def
      cbc_normal_values_def eval_nat_numeral)

section \<open>The ranges of the templates\<close>

text \<open>The floats of the decimal numbers that occur in the Normal Values of the templates.\<close>

lemma binary64_one: "binary64 1 = Finite 1"
  using binary64_int [of 1] by simp

lemma template_floats:
  "binary64 (1 / 10) = Finite (3602879701896397 / 36028797018963968)"
  "binary64 (27 / 100) = Finite (607985949695017 / 2251799813685248)"
  "binary64 (2 / 5) = Finite (3602879701896397 / 9007199254740992)"
  "binary64 (3 / 5) = Finite (5404319552844595 / 9007199254740992)"
  "binary64 (7 / 10) = Finite (3152519739159347 / 4503599627370496)"
  "binary64 (4 / 5) = Finite (3602879701896397 / 4503599627370496)"
  "binary64 (6 / 5) = Finite (5404319552844595 / 4503599627370496)"
  "binary64 (7 / 5) = Finite (3152519739159347 / 2251799813685248)"
  "binary64 (127 / 10) = Finite (3574732204225331 / 281474976710656)"
  "binary64 (23 / 10) = Finite (2589569785738035 / 1125899906842624)"
  "binary64 (12 / 5) = Finite (5404319552844595 / 2251799813685248)"
  "binary64 (16 / 5) = Finite (3602879701896397 / 1125899906842624)"
  "binary64 (7 / 2) = Finite (7 / 2)"
  "binary64 (21 / 5) = Finite (4728779608739021 / 1125899906842624)"
  "binary64 (24 / 5) = Finite (5404319552844595 / 1125899906842624)"
  "binary64 (11 / 2) = Finite (11 / 2)"
  "binary64 (83 / 10) = Finite (2336242306698445 / 281474976710656)"
  apply (rule binary64_eval [where k = "- 4" and m = "7205759403792794"]; simp add: pow2_def)
  apply (rule binary64_eval [where k = "- 2" and m = "4863887597560136"]; simp add: pow2_def)
  apply (rule binary64_eval [where k = "- 2" and m = "7205759403792794"]; simp add: pow2_def)
  apply (rule binary64_eval [where k = "- 1" and m = "5404319552844595"]; simp add: pow2_def)
  apply (rule binary64_eval [where k = "- 1" and m = "6305039478318694"]; simp add: pow2_def)
  apply (rule binary64_eval [where k = "- 1" and m = "7205759403792794"]; simp add: pow2_def)
  apply (rule binary64_eval [where k = "0" and m = "5404319552844595"]; simp add: pow2_def)
  apply (rule binary64_eval [where k = "0" and m = "6305039478318694"]; simp add: pow2_def)
  apply (rule binary64_eval [where k = "3" and m = "7149464408450662"]; simp add: pow2_def)
  apply (rule binary64_eval [where k = "1" and m = "5179139571476070"]; simp add: pow2_def)
  apply (rule binary64_eval [where k = "1" and m = "5404319552844595"]; simp add: pow2_def)
  apply (rule binary64_eval [where k = "1" and m = "7205759403792794"]; simp add: pow2_def)
  apply (rule binary64_eval [where k = "1" and m = "7881299347898368"]; simp add: pow2_def)
  apply (rule binary64_eval [where k = "2" and m = "4728779608739021"]; simp add: pow2_def)
  apply (rule binary64_eval [where k = "2" and m = "5404319552844595"]; simp add: pow2_def)
  apply (rule binary64_eval [where k = "2" and m = "6192449487634432"]; simp add: pow2_def)
  apply (rule binary64_eval [where k = "3" and m = "4672484613396890"]; simp add: pow2_def)
  done

text \<open>
  The Normal Values of every template, parsed as the loop of \<open>add_test_table\<close> parses them:
  wherever both bounds parse, the lower bound is not above the upper bound.
\<close>

lemma cbc_ranges_ordered: "list_all ordered_range cbc_normal_values"
  by (simp add: cbc_normal_values_def ordered_range_def float_eval binary64_one template_floats
      float_le_def float_eq_def)

lemma lft_ranges_ordered: "list_all ordered_range lft_normal_values"
  by (simp add: lft_normal_values_def ordered_range_def float_eval binary64_one template_floats
      float_le_def float_eq_def)

lemma kft_ranges_ordered: "list_all ordered_range kft_normal_values"
  by (simp add: kft_normal_values_def ordered_range_def float_eval binary64_one template_floats
      float_le_def float_eq_def)

lemma tft_ranges_ordered: "list_all ordered_range tft_normal_values"
  by (simp add: tft_normal_values_def mu_def ordered_range_def float_eval binary64_one template_floats
      float_le_def float_eq_def)

lemma other_ranges_ordered: "list_all ordered_range [''normal 1'', ''normal 2'', ''normal 3'']"
  by (simp add: ordered_range_def float_eval)

lemma template_ranges_ordered:
  assumes "column Normal_Values (load_report_template name) = Inr nvs"
  shows "list_all ordered_range nvs"
proof -
  have "nvs = cbc_normal_values \<or> nvs = lft_normal_values \<or> nvs = kft_normal_values
        \<or> nvs = tft_normal_values \<or> nvs = [''normal 1'', ''normal 2'', ''normal 3'']"
    using assms
    by (simp add: load_report_template_def column_DataFrame template_lengths
        split: if_splits)
  then show ?thesis
    using cbc_ranges_ordered lft_ranges_ordered kft_ranges_ordered tft_ranges_ordered
      other_ranges_ordered
    by auto
qed

lemma template_range_ordered:
  assumes "column Normal_Values (load_report_template name) = Inr nvs"
    and "nv \<in> set nvs" and "parse_range nv = (Some lo, Some hi)"
  shows "float_le lo hi"
proof -
  from template_ranges_ordered [OF assms(1)] assms(2) have "ordered_range nv"
    by (simp add: list_all_iff)
  with assms(3) show ?thesis by (simp add: ordered_range_def)
qed

text \<open>
  C9.  The Normal Values of the rows that reach \<open>add_test_table\<close> are those of a template
  of \<open>load_report_template\<close>: the column is disabled in the editor, and the program makes
  no other table.  For every such row whose result parses as a float and whose range
  parses to bounds L and U, a result equal to L or equal to U is rendered in the regular
  font.
\<close>

theorem C9_bounds_are_inclusive:
  assumes "a4 s" and "k < length data"
    and "column Normal_Values (load_report_template name) = Inr nvs"
    and "Normal_Values (data ! k) \<in> set nvs"
    and "py_float (result_str_of (data ! k)) = Inr v"
    and "parse_range (Normal_Values (data ! k)) = (Some lo, Some hi)"
    and "float_eq v lo \<or> float_eq v hi"
  shows "renders_row data section_title s k regular9"
  using renders_row_font [OF assms(1,2), of section_title]
    row_font_on_bound [OF assms(5,6) template_range_ordered [OF assms(3,4,6)] assms(7)]
  by simp

lemma pcv_range_of_template:
  "column Normal_Values (load_report_template CBC) = Inr cbc_normal_values"
  "Normal_Values pcv_at_bound \<in> set cbc_normal_values"
  by (simp_all add: load_report_template_def column_DataFrame template_lengths
      pcv_at_bound_def cbc_normal_values_def)

theorem C9_witness:
  "a4 page1 \<and> (0 :: nat) < length [pcv_at_bound]
   \<and> column Normal_Values (load_report_template CBC) = Inr cbc_normal_values
   \<and> Normal_Values ([pcv_at_bound] ! 0) \<in> set cbc_normal_values
   \<and> py_float (result_str_of ([pcv_at_bound] ! 0)) = Inr (Finite 60)
   \<and> parse_range (Normal_Values ([pcv_at_bound] ! 0)) = (Some (Finite 35), Some (Finite 60))
   \<and> float_eq (Finite 60) (Finite 60)
   \<and> renders_row [pcv_at_bound] None page1 0 regular9"
  using C9_bounds_are_inclusive [of page1 0 "[pcv_at_bound]" CBC cbc_normal_values
      "Finite 60" "Finite 35" "Finite 60" None]
  by (simp add: page1_a4 pcv_at_bound_parses pcv_range_of_template float_eq_def)

section \<open>The report generators\<close>





text \<open>White space only: a text of blanks is stripped to the empty text.\<close>

lemma py_lstrip_blanks: "py_lstrip (replicate n CHR '' '') = []"
proof (induction n)
  case 0
  then show ?case by (simp add: py_lstrip.simps uspace_len_def)
next
  case (Suc n)
  have "uspace_len (replicate (Suc n) CHR '' '') = 1"
    by (simp add: uspace_len_def byte_def)
  then show ?case using Suc by (subst py_lstrip.simps) simp
qed

lemma py_strip_blanks: "py_strip (replicate n CHR '' '') = []"
  by (simp add: py_strip_def py_lstrip_blanks py_rstrip.simps uspace_end_len_def)




section \<open>\<^verbatim>\<open>create_pdf_report\<close> and the Generate button\<close>

lemma report_step_other:
  assumes "n \<noteq> CBC" and "n \<noteq> LFT"
  shows "report_step pinfo rd [n] n s = Returned () s"
  using assms by (simp add: report_step_def ok_def)

lemma build_report_other:
  assumes "n \<noteq> CBC" and "n \<noteq> LFT"
  shows "build_report pinfo rd [n] s = build_report pinfo rd [] s"
proof -
  have "build_report pinfo rd [n] s
          = run ([add_page, add_patient_info pinfo] @ [report_step pinfo rd [n] n]) s"
    by (simp add: build_report_def)
  also have "\<dots> = run [add_page, add_patient_info pinfo] s"
    unfolding run_append
    by (cases "run [add_page, add_patient_info pinfo] s")
       (simp_all add: report_step_other [OF assms])
  finally show ?thesis by (simp add: build_report_def)
qed

text \<open>
  C2, at the failing inputs.  The claim: for every selected panel among the four,
  \<open>create_pdf_report\<close> emits that panel's section.  For the selection of the kidney
  panel alone, and of the thyroid panel alone, \<open>create_pdf_report\<close> does exactly what it
  does for the empty selection, whatever results were entered: the file holds the
  patient block and nothing of the panel.
\<close>

theorem C2_kft_and_tft_emit_nothing:
  "create_pdf_report metrics pinfo report_data [KFT] logo w
     = create_pdf_report metrics pinfo report_data [] logo w
   \<and> create_pdf_report metrics pinfo report_data [TFT] logo w
     = create_pdf_report metrics pinfo report_data [] logo w"
  by (simp add: create_pdf_report_def build_report_other names_distinct)

lemma add_patient_info_returns: "returned (add_patient_info pinfo s)"
  unfolding add_patient_info_def
  by (rule run_returns)
     (auto simp: set_font_arial cell_returns ln_pdf_def set_draw_color_def line_def)

lemma add_page_returns: "returned (add_page s)"
  by (simp add: add_page_eq)

lemma build_report_empty_returns: "returned (build_report pinfo rd [] s)"
  unfolding build_report_def
  by (rule run_returns) (auto simp: add_page_returns add_patient_info_returns)

lemma close_returns:
  "returned (run [(\<lambda>s. if page s = 0 then add_page s else ok s), footer] s)"
  by (rule run_returns) (auto simp: add_page_returns ok_def footer_eq)

text \<open>What the handler does when the report is built and written.\<close>

lemma main_generate_download:
  assumes "main_generate metrics pd rd sel w = (evs, w')" and "shows_download evs"
  shows "\<exists>c. evs = [Success, Download (report_filename pd w) c]
           \<and> w' = (if remove_fails w (report_filename pd w)
                   then w\<lparr>files := (files w)(report_filename pd w \<mapsto> c)\<rparr>
                   else w\<lparr>files := (files w)(report_filename pd w := None)\<rparr>)"
  using assms
  by (auto simp add: main_generate_def create_pdf_report_def pdf_output_def shows_download_def
      Let_def split: outcome.splits if_splits)

lemma create_pdf_report_built:
  assumes "returned (build_report pd rd sel (LabReportPDF metrics logo))"
    and "\<not> write_fails w (report_filename pd w)"
  shows "\<exists>c. create_pdf_report metrics pd rd sel logo w
              = (Inr (report_filename pd w),
                 w\<lparr>files := (files w)(report_filename pd w \<mapsto> c)\<rparr>)"
proof -
  obtain s where s: "build_report pd rd sel (LabReportPDF metrics logo) = Returned () s"
    using assms(1)
    by (cases "build_report pd rd sel (LabReportPDF metrics logo)") auto
  obtain s' where s': "run [(\<lambda>s. if page s = 0 then add_page s else ok s), footer] s
                        = Returned () s'"
    using close_returns [of s]
    by (cases "run [(\<lambda>s. if page s = 0 then add_page s else ok s), footer] s") auto
  show ?thesis
    unfolding create_pdf_report_def s outcome.case Let_def pdf_output_def s'
    using assms(2) by (intro exI [of _ "PdfFile (content s')"]) simp
qed

lemma main_generate_built:
  assumes "\<And>logo. returned (build_report pd rd sel (LabReportPDF metrics logo))"
    and "\<not> write_fails w (report_filename pd w)"
  shows "shows_download (fst (main_generate metrics pd rd sel w))"
proof -
  define logo where "logo =
     (if main_logo_path \<noteq> [] \<and> main_logo_path \<noteq> ''/path/to/your/logo.png''
         \<and> files w main_logo_path \<noteq> None
      then Some main_logo_path else None)"
  from create_pdf_report_built [OF assms(1) assms(2), of logo] obtain c where
    c: "create_pdf_report metrics pd rd sel logo w
          = (Inr (report_filename pd w), w\<lparr>files := (files w)(report_filename pd w \<mapsto> c)\<rparr>)"
    by blast
  have "main_generate metrics pd rd sel w =
          (case create_pdf_report metrics pd rd sel logo w of
             (Inl e, w1) \<Rightarrow> ([ErrorMessage e], w1)
           | (Inr pdf_filename, w1) \<Rightarrow>
               (case files w1 pdf_filename of
                  None \<Rightarrow> ([Success, ErrorMessage OSError], w1)
                | Some pdf_data \<Rightarrow>
                    ([Success, Download pdf_filename pdf_data],
                     if remove_fails w1 pdf_filename then w1
                     else w1\<lparr>files := (files w1)(pdf_filename := None)\<rparr>)))"
    unfolding main_generate_def logo_def Let_def ..
  then show ?thesis
    by (simp add: c shows_download_def)
qed

text \<open>
  C6, as amended.  For every generate-and-download interaction that succeeds (the
  success message and the download link are shown): when the removal of the report file
  does not fail, the file is removed again after the link is built, and the files on
  disk are those of before the interaction without a file of the report's name; when the
  removal fails, the error is swallowed and the report file stays on disk.
\<close>

theorem C6_report_file_removed_unless_removal_fails:
  assumes "main_generate metrics pd rd sel w = (evs, w')" and "shows_download evs"
  shows "(\<not> remove_fails w (report_filename pd w)
            \<longrightarrow> files w' = (files w)(report_filename pd w := None))
         \<and> (remove_fails w (report_filename pd w)
            \<longrightarrow> files w' (report_filename pd w) \<noteq> None)"
  using main_generate_download [OF assms] by auto

lemma demo_built:
  "returned (build_report demo_patient [KFT \<mapsto> kft_filled] [KFT] (LabReportPDF demo_metrics logo))"
  by (simp add: build_report_other names_distinct build_report_empty_returns)

theorem C6_witness:
  "shows_download (fst (main_generate demo_metrics demo_patient [KFT \<mapsto> kft_filled] [KFT]
       (demo_world False)))
   \<and> files (snd (main_generate demo_metrics demo_patient [KFT \<mapsto> kft_filled] [KFT]
       (demo_world False))) (report_filename demo_patient (demo_world False)) = None"
proof -
  have d: "shows_download (fst (main_generate demo_metrics demo_patient [KFT \<mapsto> kft_filled] [KFT]
       (demo_world False)))"
    by (rule main_generate_built) (simp_all add: demo_built demo_world_def)
  from C6_report_file_removed_unless_removal_fails [OF prod.collapse [symmetric] d]
  show ?thesis using d by (simp add: demo_world_def)
qed

text \<open>
  C6 as stated fails when the removal fails: the interaction succeeds and the report file
  is still on disk afterwards.
\<close>

theorem C6_counterexample:
  "shows_download (fst (main_generate demo_metrics demo_patient [KFT \<mapsto> kft_filled] [KFT]
       (demo_world True)))
   \<and> files (snd (main_generate demo_metrics demo_patient [KFT \<mapsto> kft_filled] [KFT]
       (demo_world True))) (report_filename demo_patient (demo_world True)) \<noteq> None"
proof -
  have d: "shows_download (fst (main_generate demo_metrics demo_patient [KFT \<mapsto> kft_filled] [KFT]
       (demo_world True)))"
    by (rule main_generate_built) (simp_all add: demo_built demo_world_def)
  from main_generate_download [OF prod.collapse [symmetric] d]
  show ?thesis using d by (auto simp add: demo_world_def)
qed

end
